theory Spec2Isabelle
  imports
    Complex_Main
    "HOL-Library.Word"
    "HOL-Library.Char_ord"
    "HOL-Library.List_Lexorder"
    "HOL-Library.AList"
    "HOL-Library.Sublist"
    "HOL-Library.Multiset"
begin

unbundle bit_operations_syntax

section \<open>Python values shared by the four scripts\<close>

text \<open>
  Every exception class the modelled code can raise.  A function that can raise returns
  \<open>py_error + 'a\<close>, with \<open>Inl\<close> for the exception.
\<close>

datatype py_error =
  ValueError | RuntimeError | IndexError | AttributeError | TypeError | OverflowError

text \<open>
  A Python \<open>str\<close> is modelled as a \<open>string\<close> whose characters are the code points
  0..255.  \<open>str.isspace()\<close>, \<open>str.split()\<close>, \<open>str.strip()\<close> and the regular expression
  class \<open>\s\<close> all use the same set of white-space code points.
\<close>

definition isspace :: "char \<Rightarrow> bool" where
  "isspace c = ((of_char c :: nat) \<in> {9, 10, 11, 12, 13, 28, 29, 30, 31, 32, 133, 160})"

text \<open>\<open>s.split()\<close>: the maximal runs of characters that are not white space.\<close>

fun split_ws :: "string \<Rightarrow> string \<Rightarrow> string list" where
  "split_ws acc [] = (if acc = [] then [] else [acc])"
| "split_ws acc (c # cs) =
     (if isspace c then (if acc = [] then split_ws [] cs else acc # split_ws [] cs)
      else split_ws (acc @ [c]) cs)"

definition split :: "string \<Rightarrow> string list" where
  "split s = split_ws [] s"

text \<open>\<open>s.strip()\<close>.\<close>

definition strip :: "string \<Rightarrow> string" where
  "strip s = rev (dropWhile isspace (rev (dropWhile isspace s)))"

section \<open>label\_filtered\_candles.py\<close>

text \<open>
  A candle row; \<open>time\<close> is the candle's timestamp in seconds.  Prices are floats in the
  source.  The type \<open>'p\<close> of prices is left open, and so is the arithmetic the script does
  on them, which is the machine's: the subtraction, the comparison \<open><\<close> and the negation
  of floating-point numbers, rounding and NaN included.
\<close>

record 'p candle =
  time :: int
  high :: 'p
  low :: 'p
  close :: 'p





section \<open>The calendar table\<close>

text \<open>
  A cell of a table read back from CSV: a string, or NaN for an empty field.
\<close>

datatype cell = Str string | NaN

text \<open>
  One row of the calendar, with the nine columns every parser of the scraper writes.
  The type of the \<open>timestamp\<close> column and of the other cells differs between the
  scripts: the scraper builds rows of a datetime (or None) and strings, and the joiner
  works on a table read from CSV whose \<open>timestamp\<close> column \<open>pd.to_datetime\<close> has turned into
  instants, counted in seconds here.
\<close>

record ('t, 'c) calendar_row =
  timestamp :: 't
  currency :: 'c
  impact :: 'c
  event :: 'c
  actual :: 'c
  forecast :: 'c
  previous :: 'c
  day :: 'c
  event_id :: 'c

section \<open>align\_news\_to\_ohlcv.py\<close>

text \<open>
  The four columns \<open>tag_news_to_candles\<close> adds to a candle.  They start as None and are
  assigned together, and the function raises as a whole when one assignment raises, so a
  returned row has either none or all of them: \<open>news_tag option\<close>.
\<close>

record news_tag =
  news_impact :: string
  news_event :: cell
  news_currency :: cell
  minutes_from_news :: int

text \<open>
  \<open>int(delta.total_seconds() / 60)\<close> for a difference of \<open>secs\<close> seconds: \<open>int\<close> truncates
  towards zero.
\<close>

definition whole_minutes :: "int \<Rightarrow> int" where
  "whole_minutes secs = sgn secs * (\<bar>secs\<bar> div 60)"

text \<open>
  \<open>df.sort_values(column)\<close>.  The default of pandas is a quicksort: the rows come back
  ordered by the column, with no promise on the order of rows that have equal values.
  The function is therefore left open: a parameter of the join, of which the theorems ask
  no more than \<open>is_sort_values\<close>.
\<close>

type_synonym 'a sort_values = "('a \<Rightarrow> int) \<Rightarrow> 'a list \<Rightarrow> 'a list"

definition is_sort_values :: "'a sort_values \<Rightarrow> bool" where
  "is_sort_values sv = (\<forall>key xs. mset (sv key xs) = mset xs \<and> sorted (map key (sv key xs)))"

text \<open>The events within \<open>\<plusminus>window_minutes\<close> of the candle, bounds included.\<close>

definition nearby_news :: "(int, cell) calendar_row list \<Rightarrow> int \<Rightarrow> int \<Rightarrow> (int, cell) calendar_row list" where
  "nearby_news news_df candle_time window_minutes =
     filter (\<lambda>n. timestamp n \<ge> candle_time - 60 * window_minutes
               \<and> timestamp n \<le> candle_time + 60 * window_minutes) news_df"

text \<open>\<open>nearby_news.sort_values('time_diff').iloc[0]\<close>, when there is a nearby event.\<close>

definition closest_news ::
  "(int, cell) calendar_row sort_values \<Rightarrow> (int, cell) calendar_row list \<Rightarrow> int \<Rightarrow> int
     \<Rightarrow> (int, cell) calendar_row option" where
  "closest_news sort_news news_df candle_time window_minutes =
     (let nearby = nearby_news news_df candle_time window_minutes
      in if nearby = [] then None
         else Some (hd (sort_news (\<lambda>n. \<bar>timestamp n - candle_time\<bar>) nearby)))"

text \<open>
  The body of the loop for one candle: the values assigned to its four columns.
  \<open>closest['impact'].split()[0]\<close> raises AttributeError on NaN and IndexError on a string
  without a token.
\<close>

definition tag_of ::
  "(int, cell) calendar_row sort_values \<Rightarrow> (int, cell) calendar_row list \<Rightarrow> int \<Rightarrow> int
     \<Rightarrow> py_error + news_tag option" where
  "tag_of sort_news news_df candle_time window_minutes =
     (case closest_news sort_news news_df candle_time window_minutes of
        None \<Rightarrow> Inr None
      | Some closest \<Rightarrow>
         (case impact closest of
            NaN \<Rightarrow> Inl AttributeError
          | Str s \<Rightarrow>
             (case split s of
                [] \<Rightarrow> Inl IndexError
              | w # _ \<Rightarrow>
                 Inr (Some \<lparr>news_impact = w, news_event = event closest,
                            news_currency = currency closest,
                            minutes_from_news = whole_minutes (candle_time - timestamp closest)\<rparr>))))"

text \<open>
  The loop over \<open>enumerate(ohlcv_df['time'])\<close>.  \<open>ohlcv_df.at[i, ...]\<close> addresses the row
  whose index label is \<open>i\<close>; \<open>tags\<close> holds the new columns by label.
\<close>

fun tag_loop ::
  "(int, cell) calendar_row sort_values \<Rightarrow> (int, cell) calendar_row list \<Rightarrow> int
     \<Rightarrow> (nat \<times> int) list \<Rightarrow> news_tag option list \<Rightarrow> py_error + news_tag option list" where
  "tag_loop sort_news news_df window_minutes [] tags = Inr tags"
| "tag_loop sort_news news_df window_minutes ((i, candle_time) # rest) tags =
     (case tag_of sort_news news_df candle_time window_minutes of
        Inl e \<Rightarrow> Inl e
      | Inr None \<Rightarrow> tag_loop sort_news news_df window_minutes rest tags
      | Inr (Some t) \<Rightarrow> tag_loop sort_news news_df window_minutes rest (tags[i := Some t]))"

text \<open>
  \<open>tag_news_to_candles(ohlcv_df, news_df, window_minutes)\<close> on a candle table with the
  default index (labels \<open>0, 1, ...\<close> in the order of the rows, as \<open>pd.read_csv\<close> gives
  it).  \<open>sort_values\<close> reorders the rows and keeps their labels; the returned table is
  in time order.
\<close>

definition tag_news_to_candles ::
  "(nat \<times> ('p, 'a) candle_scheme) sort_values \<Rightarrow> (int, cell) calendar_row sort_values
     \<Rightarrow> ('p, 'a) candle_scheme list \<Rightarrow> (int, cell) calendar_row list \<Rightarrow> int
     \<Rightarrow> py_error + (('p, 'a) candle_scheme \<times> news_tag option) list" where
  "tag_news_to_candles sort_candles sort_news ohlcv_df news_df window_minutes =
     (let ohlcv_sorted = sort_candles (\<lambda>(label, c). time c) (enumerate 0 ohlcv_df);
          news_sorted = sort_news timestamp news_df
      in case tag_loop sort_news news_sorted window_minutes
                (enumerate 0 (map (\<lambda>(label, c). time c) ohlcv_sorted))
                (replicate (length ohlcv_df) None) of
           Inl e \<Rightarrow> Inl e
         | Inr tags \<Rightarrow> Inr (map (\<lambda>(label, c). (c, tags ! label)) ohlcv_sorted))"

section \<open>Dates and times of the standard library\<close>

text \<open>
  A \<open>datetime\<close> without a time zone, at the resolution of whole seconds.  The field
  \<open>mday\<close> is the attribute \<open>day\<close>.
\<close>

record datetime =
  year :: nat
  month :: nat
  mday :: nat
  hour :: nat
  minute :: nat
  second :: nat

definition digit_char :: "nat \<Rightarrow> char" where
  "digit_char d = char_of (48 + d)"

text \<open>\<open>str(n)\<close> for a number that is not negative.\<close>

fun str_nat :: "nat \<Rightarrow> string" where
  "str_nat n = (if n < 10 then [digit_char n] else str_nat (n div 10) @ [digit_char (n mod 10)])"

text \<open>A number padded with zeros to at least \<open>w\<close> digits, as \<open>%02d\<close> and \<open>%04d\<close> write it.\<close>

definition zero_pad :: "nat \<Rightarrow> nat \<Rightarrow> string" where
  "zero_pad w n = replicate (w - length (str_nat n)) (CHR ''0'') @ str_nat n"

text \<open>\<open>str(dt)\<close>, which is what an f-string writes for a datetime: \<open>YYYY-MM-DD HH:MM:SS\<close>.\<close>

definition str_datetime :: "datetime \<Rightarrow> string" where
  "str_datetime dt =
     zero_pad 4 (year dt) @ ''-'' @ zero_pad 2 (month dt) @ ''-'' @ zero_pad 2 (mday dt) @ '' ''
       @ zero_pad 2 (hour dt) @ '':'' @ zero_pad 2 (minute dt) @ '':'' @ zero_pad 2 (second dt)"

text \<open>What an f-string writes for a timestamp that may be None.\<close>

definition str_timestamp :: "datetime option \<Rightarrow> string" where
  "str_timestamp ts = (case ts of None \<Rightarrow> ''None'' | Some dt \<Rightarrow> str_datetime dt)"

subsection \<open>\<open>datetime.strptime\<close> for the two formats of the scraper\<close>

text \<open>
  \<open>strptime\<close> turns a format into a regular expression, matched without regard to case
  from the start of the string; the match must cover the whole string.  In the format
  \<open>%a %b %d %Y\<close> every blank becomes \<open>\s+\<close>, so the string must consist of the four fields
  separated by one or more white-space characters, with none before the first or after the
  last: exactly the strings \<open>ws_fields\<close> splits into four tokens that match their directive
  (CPython 3.11, C locale).  The weekday is matched and otherwise ignored.
\<close>

definition lower :: "char \<Rightarrow> char" where
  "lower c = (let n = (of_char c :: nat) in if 65 \<le> n \<and> n \<le> 90 then char_of (n + 32) else c)"

definition is_digit :: "char \<Rightarrow> bool" where
  "is_digit c = (let n = (of_char c :: nat) in 48 \<le> n \<and> n \<le> 57)"

definition digit_val :: "char \<Rightarrow> nat" where
  "digit_val c = of_char c - 48"

definition ws_fields :: "string \<Rightarrow> string list option" where
  "ws_fields s = (if s = [] \<or> isspace (hd s) \<or> isspace (last s) then None else Some (split s))"

text \<open>\<open>%a\<close>: \<open>mon|tue|wed|thu|fri|sat|sun\<close>.\<close>

definition match_a :: "string \<Rightarrow> bool" where
  "match_a tok = (map lower tok \<in> set [''mon'', ''tue'', ''wed'', ''thu'', ''fri'', ''sat'', ''sun''])"

text \<open>\<open>%b\<close>: the month whose abbreviation the token is.\<close>

definition month_abbr :: "string list" where
  "month_abbr = [''jan'', ''feb'', ''mar'', ''apr'', ''may'', ''jun'',
                 ''jul'', ''aug'', ''sep'', ''oct'', ''nov'', ''dec'']"

fun index_of :: "'a \<Rightarrow> 'a list \<Rightarrow> nat option" where
  "index_of x [] = None"
| "index_of x (y # ys) = (if x = y then Some 0 else map_option Suc (index_of x ys))"

definition match_b :: "string \<Rightarrow> nat option" where
  "match_b tok = map_option Suc (index_of (map lower tok) month_abbr)"

text \<open>\<open>%d\<close>: \<open>3[0-1]|[1-2]\d|0[1-9]|[1-9]\<close>.\<close>

fun match_d :: "string \<Rightarrow> nat option" where
  "match_d [c] = (if is_digit c \<and> c \<noteq> CHR ''0'' then Some (digit_val c) else None)"
| "match_d [c1, c2] =
     (if (c1 = CHR ''3'' \<and> (c2 = CHR ''0'' \<or> c2 = CHR ''1''))
         \<or> ((c1 = CHR ''1'' \<or> c1 = CHR ''2'') \<and> is_digit c2)
         \<or> (c1 = CHR ''0'' \<and> is_digit c2 \<and> c2 \<noteq> CHR ''0'')
      then Some (10 * digit_val c1 + digit_val c2) else None)"
| "match_d _ = None"

text \<open>\<open>%Y\<close>: \<open>\d\d\d\d\<close>.\<close>

fun match_Y :: "string \<Rightarrow> nat option" where
  "match_Y [c1, c2, c3, c4] =
     (if is_digit c1 \<and> is_digit c2 \<and> is_digit c3 \<and> is_digit c4
      then Some (1000 * digit_val c1 + 100 * digit_val c2 + 10 * digit_val c3 + digit_val c4)
      else None)"
| "match_Y _ = None"

text \<open>\<open>%I\<close>: \<open>1[0-2]|0[1-9]|[1-9]\<close>.\<close>

fun match_I :: "string \<Rightarrow> nat option" where
  "match_I [c] = (if is_digit c \<and> c \<noteq> CHR ''0'' then Some (digit_val c) else None)"
| "match_I [c1, c2] =
     (if (c1 = CHR ''1'' \<and> (c2 = CHR ''0'' \<or> c2 = CHR ''1'' \<or> c2 = CHR ''2''))
         \<or> (c1 = CHR ''0'' \<and> is_digit c2 \<and> c2 \<noteq> CHR ''0'')
      then Some (10 * digit_val c1 + digit_val c2) else None)"
| "match_I _ = None"

text \<open>\<open>%M\<close>: \<open>[0-5]\d|\d\<close>.\<close>

fun match_M :: "string \<Rightarrow> nat option" where
  "match_M [c] = (if is_digit c then Some (digit_val c) else None)"
| "match_M [c1, c2] =
     (if is_digit c1 \<and> digit_val c1 \<le> 5 \<and> is_digit c2
      then Some (10 * digit_val c1 + digit_val c2) else None)"
| "match_M _ = None"

text \<open>
  \<open>%I:%M%p\<close> on one token: the hour up to the first colon, the minute, and \<open>am\<close> or \<open>pm\<close>
  in the last two characters; the result is the hour of the day and the minute.
\<close>

definition match_clock :: "string \<Rightarrow> (nat \<times> nat) option" where
  "match_clock tok =
     (let h = takeWhile (\<lambda>c. c \<noteq> CHR '':'') tok;
          rest = dropWhile (\<lambda>c. c \<noteq> CHR '':'') tok
      in if rest = [] \<or> length rest < 3 then None
         else let m = take (length rest - 3) (tl rest);
                  p = map lower (drop (length rest - 2) rest)
              in case (match_I h, match_M m) of
                   (Some hh, Some mm) \<Rightarrow>
                     (if p = ''am'' then Some (if hh = 12 then 0 else hh, mm)
                      else if p = ''pm'' then Some (if hh = 12 then hh else hh + 12, mm)
                      else None)
                 | _ \<Rightarrow> None)"

definition is_leap :: "nat \<Rightarrow> bool" where
  "is_leap y = (y mod 4 = 0 \<and> (y mod 100 \<noteq> 0 \<or> y mod 400 = 0))"

definition days_in_month :: "nat \<Rightarrow> nat \<Rightarrow> nat" where
  "days_in_month y m =
     (if m = 2 then (if is_leap y then 29 else 28)
      else if m \<in> {4, 6, 9, 11} then 30 else 31)"

text \<open>The dates a \<open>datetime\<close> can hold: the constructor raises ValueError on any other.\<close>

definition valid_date :: "nat \<Rightarrow> nat \<Rightarrow> nat \<Rightarrow> bool" where
  "valid_date y m d = (1 \<le> y \<and> y \<le> 9999 \<and> 1 \<le> m \<and> m \<le> 12 \<and> 1 \<le> d \<and> d \<le> days_in_month y m)"

text \<open>\<open>datetime.strptime(s, "%a %b %d %Y")\<close>; None is ValueError.\<close>

definition strptime_date :: "string \<Rightarrow> datetime option" where
  "strptime_date s =
     (case ws_fields s of
        Some [a, b, d, Y] \<Rightarrow>
          (case (match_b b, match_d d, match_Y Y) of
             (Some mo, Some dd, Some yy) \<Rightarrow>
               (if match_a a \<and> valid_date yy mo dd
                then Some \<lparr>year = yy, month = mo, mday = dd, hour = 0, minute = 0, second = 0\<rparr>
                else None)
           | _ \<Rightarrow> None)
      | _ \<Rightarrow> None)"

text \<open>\<open>datetime.strptime(s, "%a %b %d %Y %I:%M%p")\<close>; None is ValueError.\<close>

definition strptime_datetime :: "string \<Rightarrow> datetime option" where
  "strptime_datetime s =
     (case ws_fields s of
        Some [a, b, d, Y, t] \<Rightarrow>
          (case (match_b b, match_d d, match_Y Y, match_clock t) of
             (Some mo, Some dd, Some yy, Some (hh, mm)) \<Rightarrow>
               (if match_a a \<and> valid_date yy mo dd
                then Some \<lparr>year = yy, month = mo, mday = dd, hour = hh, minute = mm, second = 0\<rparr>
                else None)
           | _ \<Rightarrow> None)
      | _ \<Rightarrow> None)"

section \<open>\<open>hashlib.md5\<close>\<close>

text \<open>\<open>s.encode()\<close>: the UTF-8 bytes of a string of code points below 256.\<close>

definition encode :: "string \<Rightarrow> 8 word list" where
  "encode s =
     concat (map (\<lambda>c. let n = (of_char c :: nat)
                       in if n < 128 then [word_of_nat n]
                          else [word_of_nat (192 + n div 64), word_of_nat (128 + n mod 64)]) s)"

text \<open>MD5 (RFC 1321): the sine table, the rotation amounts, padding, and the rounds.\<close>

definition md5_K :: "32 word list" where
  "md5_K =
    [0xd76aa478, 0xe8c7b756, 0x242070db, 0xc1bdceee, 0xf57c0faf, 0x4787c62a,
     0xa8304613, 0xfd469501, 0x698098d8, 0x8b44f7af, 0xffff5bb1, 0x895cd7be,
     0x6b901122, 0xfd987193, 0xa679438e, 0x49b40821, 0xf61e2562, 0xc040b340,
     0x265e5a51, 0xe9b6c7aa, 0xd62f105d, 0x02441453, 0xd8a1e681, 0xe7d3fbc8,
     0x21e1cde6, 0xc33707d6, 0xf4d50d87, 0x455a14ed, 0xa9e3e905, 0xfcefa3f8,
     0x676f02d9, 0x8d2a4c8a, 0xfffa3942, 0x8771f681, 0x6d9d6122, 0xfde5380c,
     0xa4beea44, 0x4bdecfa9, 0xf6bb4b60, 0xbebfbc70, 0x289b7ec6, 0xeaa127fa,
     0xd4ef3085, 0x04881d05, 0xd9d4d039, 0xe6db99e5, 0x1fa27cf8, 0xc4ac5665,
     0xf4292244, 0x432aff97, 0xab9423a7, 0xfc93a039, 0x655b59c3, 0x8f0ccc92,
     0xffeff47d, 0x85845dd1, 0x6fa87e4f, 0xfe2ce6e0, 0xa3014314, 0x4e0811a1,
     0xf7537e82, 0xbd3af235, 0x2ad7d2bb, 0xeb86d391]"

definition md5_s :: "nat list" where
  "md5_s =
    [7, 12, 17, 22, 7, 12, 17, 22, 7, 12, 17, 22, 7, 12, 17, 22,
     5, 9, 14, 20, 5, 9, 14, 20, 5, 9, 14, 20, 5, 9, 14, 20,
     4, 11, 16, 23, 4, 11, 16, 23, 4, 11, 16, 23, 4, 11, 16, 23,
     6, 10, 15, 21, 6, 10, 15, 21, 6, 10, 15, 21, 6, 10, 15, 21]"

definition md5_pad :: "8 word list \<Rightarrow> 8 word list" where
  "md5_pad msg =
     msg @ [0x80] @ replicate ((119 - length msg mod 64) mod 64) 0
       @ map (\<lambda>i. ucast (drop_bit (8 * i) (word_of_nat (8 * length msg) :: 64 word))) [0 ..< 8]"

definition le32 :: "8 word list \<Rightarrow> 32 word" where
  "le32 bs = foldr (\<lambda>b w. push_bit 8 w OR ucast b) bs 0"

fun md5_words :: "8 word list \<Rightarrow> 32 word list" where
  "md5_words (a # b # c # d # bs) = le32 [a, b, c, d] # md5_words bs"
| "md5_words _ = []"

definition md5_step :: "32 word list \<Rightarrow> (32 word \<times> 32 word \<times> 32 word \<times> 32 word) \<Rightarrow> nat
    \<Rightarrow> (32 word \<times> 32 word \<times> 32 word \<times> 32 word)" where
  "md5_step M st i =
     (case st of (A, B, C, D) \<Rightarrow>
       let F = (if i < 16 then (B AND C) OR (NOT B AND D)
                else if i < 32 then (D AND B) OR (NOT D AND C)
                else if i < 48 then B XOR C XOR D
                else C XOR (B OR NOT D));
           g = (if i < 16 then i
                else if i < 32 then (5 * i + 1) mod 16
                else if i < 48 then (3 * i + 5) mod 16
                else (7 * i) mod 16);
           F' = F + A + md5_K ! i + M ! g
       in (D, B + word_rotl (md5_s ! i) F', B, C))"

definition md5_block :: "(32 word \<times> 32 word \<times> 32 word \<times> 32 word) \<Rightarrow> 32 word list
    \<Rightarrow> (32 word \<times> 32 word \<times> 32 word \<times> 32 word)" where
  "md5_block st M =
     (case st of (a0, b0, c0, d0) \<Rightarrow>
        case foldl (md5_step M) st [0 ..< 64] of (A, B, C, D) \<Rightarrow>
          (a0 + A, b0 + B, c0 + C, d0 + D))"

fun md5_blocks :: "(32 word \<times> 32 word \<times> 32 word \<times> 32 word) \<Rightarrow> 32 word list
    \<Rightarrow> (32 word \<times> 32 word \<times> 32 word \<times> 32 word)" where
  "md5_blocks st ws = (if length ws < 16 then st
                       else md5_blocks (md5_block st (take 16 ws)) (drop 16 ws))"

definition hex_byte :: "8 word \<Rightarrow> string" where
  "hex_byte b = [''0123456789abcdef'' ! (unat b div 16), ''0123456789abcdef'' ! (unat b mod 16)]"

definition bytes_le32 :: "32 word \<Rightarrow> 8 word list" where
  "bytes_le32 w = map (\<lambda>i. ucast (drop_bit (8 * i) w)) [0 ..< 4]"

text \<open>\<open>hashlib.md5(msg).hexdigest()\<close>.\<close>

definition md5_hexdigest :: "8 word list \<Rightarrow> string" where
  "md5_hexdigest msg =
     (case md5_blocks (0x67452301, 0xefcdab89, 0x98badcfe, 0x10325476) (md5_words (md5_pad msg)) of
        (a, b, c, d) \<Rightarrow> concat (map hex_byte (concat (map bytes_le32 [a, b, c, d]))))"

section \<open>forex\_factory\_scraper.py: the parsers\<close>

text \<open>A row as the parsers build it: a datetime or None, and strings.\<close>

type_synonym event_row = "(datetime option, string) calendar_row"

text \<open>
  \<open>hashlib.md5(id_input.encode()).hexdigest()\<close>, the last step of every parser's
  \<open>event_id\<close>.
\<close>

definition md5_id :: "string \<Rightarrow> string" where
  "md5_id id_input = md5_hexdigest (encode id_input)"

subsection \<open>\<open>parse_calendar_time\<close>\<close>

text \<open>
  The repair of a day heading whose weekday and month are fused:
  \<open>if len(day_str) >= 6 and not day_str[3].isspace(): day_str = f"{day_str[:3]} {day_str[3:]}"\<close>.
\<close>

definition repair_day :: "string \<Rightarrow> string" where
  "repair_day day_str =
     (if length day_str \<ge> 6 \<and> \<not> isspace (day_str ! 3)
      then take 3 day_str @ '' '' @ drop 3 day_str else day_str)"

text \<open>
  \<open>parse_calendar_time(week_date, day_str, time_str)\<close>.  \<open>week_date\<close> defaults to None in
  the callers, and \<open>week_date.year\<close> then raises AttributeError, which the handler for
  ValueError does not catch.  The handler sees the day string as the first attempt left
  it.
\<close>

definition parse_calendar_time :: "datetime option \<Rightarrow> string \<Rightarrow> string \<Rightarrow> py_error + datetime" where
  "parse_calendar_time week_date day_str time_str =
     (let day_str1 = repair_day day_str
      in case week_date of
           None \<Rightarrow> Inl AttributeError
         | Some wd \<Rightarrow>
            (case strptime_datetime (day_str1 @ '' '' @ str_nat (year wd) @ '' '' @ time_str) of
               Some dt \<Rightarrow> Inr dt
             | None \<Rightarrow>
                (let day_str2 = repair_day day_str1
                 in case strptime_date (day_str2 @ '' '' @ str_nat (year wd)) of
                      Some dt \<Rightarrow> Inr dt
                    | None \<Rightarrow> Inl RuntimeError)))"

subsection \<open>\<open>parse_calendar_dom\<close>\<close>

text \<open>
  A row of \<open>soup.select("tr.calendar__row")\<close>, as the cells the parser selects from it:
  None when \<open>select_one\<close> finds no such cell, and otherwise the cell's
  \<open>get_text(strip=True)\<close>; for the impact cell, its \<open>title\<close> attribute if it has one.
\<close>

record dom_row =
  time_cell :: "string option"
  date_cell :: "string option"
  currency_cell :: "string option"
  impact_cell :: "string option option"
  event_title :: "string option"
  actual_cell :: "string option"
  forecast_cell :: "string option"
  previous_cell :: "string option"

definition text_or_empty :: "string option \<Rightarrow> string" where
  "text_or_empty c = (case c of None \<Rightarrow> [] | Some t \<Rightarrow> t)"

text \<open>
  The loop over the rows, with \<open>current_day\<close> carried from row to row.  An exception in
  the body is caught and the row skipped.
\<close>

fun dom_rows :: "datetime option \<Rightarrow> string \<Rightarrow> dom_row list \<Rightarrow> event_row list" where
  "dom_rows week_date current_day [] = []"
| "dom_rows week_date current_day (row # rows) =
     (let time_str = text_or_empty (time_cell row);
          current_day = (case date_cell row of None \<Rightarrow> current_day | Some d \<Rightarrow> d);
          currency = text_or_empty (currency_cell row);
          impact = (case impact_cell row of None \<Rightarrow> []
                    | Some None \<Rightarrow> strip [] | Some (Some title) \<Rightarrow> strip title);
          event_name = text_or_empty (event_title row);
          actual = text_or_empty (actual_cell row);
          forecast = text_or_empty (forecast_cell row);
          previous = text_or_empty (previous_cell row)
      in if time_str = [] \<or> current_day = [] then dom_rows week_date current_day rows
         else case parse_calendar_time week_date current_day time_str of
                Inl ex \<Rightarrow> dom_rows week_date current_day rows
              | Inr ts \<Rightarrow>
                 (let id_input = str_timestamp (Some ts) @ currency
                        @ (if event_name \<noteq> [] then event_name else actual @ forecast @ previous)
                  in \<lparr>timestamp = Some ts, currency = currency, impact = impact,
                       event = event_name, actual = actual, forecast = forecast,
                       previous = previous, day = current_day, event_id = md5_id id_input\<rparr>
                     # dom_rows week_date current_day rows))"

text \<open>\<open>parse_calendar_dom(html, week_date)\<close> on the calendar rows of the page.\<close>

definition parse_calendar_dom :: "dom_row list \<Rightarrow> datetime option \<Rightarrow> event_row list" where
  "parse_calendar_dom rows week_date = dom_rows week_date [] rows"

subsection \<open>The embedded script state\<close>

text \<open>
  The values \<open>js2py\<close> and \<open>demjson3\<close> decode to.  Numbers are whole and the keys of an
  object are distinct.
\<close>

datatype json =
  JNull | JBool bool | JNum int | JStr string | JArr "json list" | JObj "(string \<times> json) list"

text \<open>The truth value of a decoded value, as \<open>if not x\<close> and \<open>or\<close> test it.\<close>

definition truthy :: "json \<Rightarrow> bool" where
  "truthy v =
     (case v of JNull \<Rightarrow> False | JBool b \<Rightarrow> b | JNum n \<Rightarrow> n \<noteq> 0
      | JStr s \<Rightarrow> s \<noteq> [] | JArr xs \<Rightarrow> xs \<noteq> [] | JObj kv \<Rightarrow> kv \<noteq> [])"

text \<open>\<open>d.get(k, default)\<close> on a dict.\<close>

definition get_or :: "(string \<times> json) list \<Rightarrow> string \<Rightarrow> json \<Rightarrow> json" where
  "get_or d k dflt = (case map_of d k of None \<Rightarrow> dflt | Some v \<Rightarrow> v)"

text \<open>
  \<open>for x in v\<close>: the elements of a list, the characters of a string, the keys of a dict;
  TypeError on a value that is not iterable.
\<close>

definition iterate :: "json \<Rightarrow> py_error + json list" where
  "iterate v =
     (case v of JArr xs \<Rightarrow> Inr xs
      | JStr s \<Rightarrow> Inr (map (\<lambda>c. JStr [c]) s)
      | JObj kv \<Rightarrow> Inr (map (\<lambda>(k, x). JStr k) kv)
      | _ \<Rightarrow> Inl TypeError)"

text \<open>\<open>e.get(k, "").strip()\<close> on a dict: AttributeError when the value is not a string.\<close>

definition get_stripped :: "(string \<times> json) list \<Rightarrow> string \<Rightarrow> py_error + string" where
  "get_stripped e k =
     (case get_or e k (JStr []) of JStr s \<Rightarrow> Inr (strip s) | _ \<Rightarrow> Inl AttributeError)"

text \<open>
  What the parsers take from libraries and from the machine they run on:
  \<open>datetime.fromtimestamp\<close> on whole seconds, which depends on the local time zone and is
  None where it raises (a time out of range); and
  \<open>BeautifulSoup(x, "html.parser").get_text(strip=True)\<close> on the value of a day's
  \<open>date\<close> key.
\<close>

record libs =
  fromtimestamp :: "int \<Rightarrow> datetime option"
  soup_text :: "json \<Rightarrow> py_error + string"

text \<open>\<open>datetime.fromtimestamp(ts)\<close> on a decoded value; \<open>bool\<close> is a subclass of \<open>int\<close>.\<close>

definition timestamp_of :: "libs \<Rightarrow> json \<Rightarrow> py_error + datetime" where
  "timestamp_of L ts =
     (case ts of
        JNum n \<Rightarrow> (case fromtimestamp L n of None \<Rightarrow> Inl OverflowError | Some dt \<Rightarrow> Inr dt)
      | JBool b \<Rightarrow> (case fromtimestamp L (if b then 1 else 0) of
                      None \<Rightarrow> Inl OverflowError | Some dt \<Rightarrow> Inr dt)
      | _ \<Rightarrow> Inl TypeError)"

subsection \<open>\<open>parse_calendar_html\<close>\<close>

text \<open>
  The body of the loop over a day's events: None when the event is passed over, by
  \<open>continue\<close> or because the body raised and the handler logged it.
\<close>

definition html_event :: "libs \<Rightarrow> string \<Rightarrow> json \<Rightarrow> event_row option" where
  "html_event L date_str ev =
     (case ev of
        JObj e \<Rightarrow>
          (let ts = get_or e ''dateline'' JNull
           in if \<not> truthy ts then None
              else case (timestamp_of L ts, get_stripped e ''name'', get_stripped e ''currency'',
                         get_stripped e ''impactTitle'', get_stripped e ''actual'',
                         get_stripped e ''forecast'', get_stripped e ''previous'') of
                     (Inr ts', Inr event_text, Inr currency', Inr impact', Inr actual',
                      Inr forecast', Inr previous') \<Rightarrow>
                       (let id_input = str_timestamp (Some ts') @ currency' @ event_text
                        in Some \<lparr>timestamp = Some ts', currency = currency', impact = impact',
                                  event = event_text, actual = actual', forecast = forecast',
                                  previous = previous', day = date_str,
                                  event_id = md5_id id_input\<rparr>)
                   | _ \<Rightarrow> None)
      | _ \<Rightarrow> None)"

text \<open>
  The loop over the days.  What raises outside the handler of the inner loop ends the
  parse: a day that is not a dict, its \<open>date\<close> when BeautifulSoup refuses it, its
  \<open>events\<close> when they cannot be iterated.
\<close>

fun html_days :: "libs \<Rightarrow> json list \<Rightarrow> py_error + event_row list" where
  "html_days L [] = Inr []"
| "html_days L (d0 # days) =
     (case d0 of
        JObj d \<Rightarrow>
          (case soup_text L (get_or d ''date'' (JStr [])) of
             Inl ex \<Rightarrow> Inl ex
           | Inr date_str \<Rightarrow>
              (case iterate (get_or d ''events'' (JArr [])) of
                 Inl ex \<Rightarrow> Inl ex
               | Inr evs \<Rightarrow>
                  (case html_days L days of
                     Inl ex \<Rightarrow> Inl ex
                   | Inr rest \<Rightarrow> Inr (List.map_filter (html_event L date_str) evs @ rest))))
      | _ \<Rightarrow> Inl AttributeError)"

text \<open>
  A fetched page, as the three things the parsers extract from its HTML:
  \<open>state_blob\<close>, the group the pattern \<open>calendarComponentStates[1] = {...};\<close> matches, if
  it matches; \<open>state_dict\<close>, what \<open>js2py\<close> evaluates that text to, None when the evaluation
  raises (the text is malformed); and \<open>calendar_rows\<close>, the rows of the DOM table.
\<close>

record page =
  state_blob :: "string option"
  state_dict :: "(string \<times> json) list option"
  calendar_rows :: "dom_row list"

text \<open>\<open>calendar_data.get("days") or calendar_data.get("1", {}).get("days")\<close>.\<close>

definition cal_state_of :: "(string \<times> json) list \<Rightarrow> py_error + json" where
  "cal_state_of calendar_data =
     (let days = get_or calendar_data ''days'' JNull
      in if truthy days then Inr days
         else case get_or calendar_data ''1'' (JObj []) of
                JObj d \<Rightarrow> Inr (get_or d ''days'' JNull)
              | _ \<Rightarrow> Inl AttributeError)"

text \<open>
  \<open>parse_calendar_html(html)\<close>, with the debug files it has written so far: it saves the
  matched text before evaluating it.
\<close>

definition parse_calendar_html :: "libs \<Rightarrow> page \<Rightarrow> string list \<Rightarrow> (py_error + event_row list) \<times> string list" where
  "parse_calendar_html L html debug =
     (case state_blob html of
        None \<Rightarrow> (Inl ValueError, debug)
      | Some js_data \<Rightarrow>
         (let debug = debug @ [''debug/raw_calendar_json.js'']
          in case state_dict html of
               None \<Rightarrow> (Inl ValueError, debug)
             | Some calendar_data \<Rightarrow>
                (case cal_state_of calendar_data of
                   Inl ex \<Rightarrow> (Inl ex, debug)
                 | Inr cal_state \<Rightarrow>
                    (if \<not> truthy cal_state then (Inl ValueError, debug)
                     else case iterate cal_state of
                            Inl ex \<Rightarrow> (Inl ex, debug)
                          | Inr days \<Rightarrow> (html_days L days, debug)))))"

subsection \<open>\<open>parse_calendar_html_json\<close>\<close>

text \<open>\<open>k in v\<close>: a key of a dict, an element of a list, a substring of a string.\<close>

definition json_in :: "string \<Rightarrow> json \<Rightarrow> py_error + bool" where
  "json_in k v =
     (case v of JObj d \<Rightarrow> Inr (k \<in> fst ` set d)
      | JArr xs \<Rightarrow> Inr (JStr k \<in> set xs)
      | JStr s \<Rightarrow> Inr (sublist k s)
      | _ \<Rightarrow> Inl TypeError)"

text \<open>
  The body of the loop over a day's events.  \<open>e["dateline"]\<close> raises when the key is
  missing; an unnamed event is keyed by its actual, forecast and previous values.
\<close>

definition json_event :: "libs \<Rightarrow> string \<Rightarrow> json \<Rightarrow> event_row option" where
  "json_event L date_str ev =
     (case ev of
        JObj e \<Rightarrow>
          (case map_of e ''dateline'' of
             None \<Rightarrow> None
           | Some ts \<Rightarrow>
              (case (timestamp_of L ts, get_stripped e ''name'', get_stripped e ''currency'',
                     get_stripped e ''impactTitle'', get_stripped e ''actual'',
                     get_stripped e ''forecast'', get_stripped e ''previous'') of
                 (Inr ts', Inr event_text, Inr currency', Inr impact', Inr actual',
                  Inr forecast', Inr previous') \<Rightarrow>
                   (let fallback_event = ''actual:'' @ actual' @ ''|forecast:'' @ forecast'
                                           @ ''|previous:'' @ previous';
                        id_input = str_timestamp (Some ts') @ currency'
                                     @ (if event_text \<noteq> [] then event_text else fallback_event)
                    in Some \<lparr>timestamp = Some ts', currency = currency', impact = impact',
                              event = event_text, actual = actual', forecast = forecast',
                              previous = previous', day = date_str,
                              event_id = md5_id id_input\<rparr>)
               | _ \<Rightarrow> None))
      | _ \<Rightarrow> None)"

fun json_days :: "libs \<Rightarrow> json list \<Rightarrow> py_error + event_row list" where
  "json_days L [] = Inr []"
| "json_days L (d0 # days) =
     (case d0 of
        JObj d \<Rightarrow>
          (case soup_text L (get_or d ''date'' (JStr [])) of
             Inl ex \<Rightarrow> Inl ex
           | Inr date_str \<Rightarrow>
              (case iterate (get_or d ''events'' (JArr [])) of
                 Inl ex \<Rightarrow> Inl ex
               | Inr evs \<Rightarrow>
                  (case json_days L days of
                     Inl ex \<Rightarrow> Inl ex
                   | Inr rest \<Rightarrow> Inr (List.map_filter (json_event L date_str) evs @ rest))))
      | _ \<Rightarrow> Inl AttributeError)"

text \<open>
  \<open>parse_calendar_html_json(data)\<close>.  Only a dict can be subscripted with \<open>"days"\<close>.
\<close>

definition parse_calendar_html_json :: "libs \<Rightarrow> (string \<times> json) list \<Rightarrow> py_error + event_row list" where
  "parse_calendar_html_json L data =
     (let cal_state = get_or data ''1'' (JObj [])
      in case json_in ''days'' cal_state of
           Inl ex \<Rightarrow> Inl ex
         | Inr False \<Rightarrow> Inl RuntimeError
         | Inr True \<Rightarrow>
            (case cal_state of
               JObj d \<Rightarrow>
                 (case iterate (get_or d ''days'' JNull) of
                    Inl ex \<Rightarrow> Inl ex
                  | Inr days \<Rightarrow> json_days L days)
             | _ \<Rightarrow> Inl TypeError))"

section \<open>forex\_factory\_scraper.py: one week, the merge, the campaign\<close>

subsection \<open>Week anchors\<close>

text \<open>
  The dates the campaign steps through are datetimes at midnight; one is modelled by its
  proleptic Gregorian ordinal (\<open>toordinal()\<close>: 1 is 0001-01-01).  The largest date is
  9999-12-31, and adding a \<open>timedelta\<close> that leads past it raises OverflowError.
\<close>

definition max_ordinal :: nat where
  "max_ordinal = 3652059"

text \<open>The ordinal's year, month and day, as \<open>datetime\<close> computes them (\<open>_ord2ymd\<close>).\<close>

definition ord2ymd :: "nat \<Rightarrow> nat \<times> nat \<times> nat" where
  "ord2ymd ordinal =
     (let n = ordinal - 1;
          n400 = n div 146097; r400 = n mod 146097;
          n100 = r400 div 36524; r100 = r400 mod 36524;
          n4 = r100 div 1461; r4 = r100 mod 1461;
          n1 = r4 div 365; r1 = r4 mod 365;
          y = n400 * 400 + 1 + n100 * 100 + n4 * 4 + n1
      in if n1 = 4 \<or> n100 = 4 then (y - 1, 12, 31)
         else let leapyear = (n1 = 3 \<and> (n4 \<noteq> 24 \<or> n100 = 3));
                  m = (r1 + 50) div 32;
                  preceding = [0, 0, 31, 59, 90, 120, 151, 181, 212, 243, 273, 304, 334] ! m
                                + (if m > 2 \<and> leapyear then 1 else 0)
              in if preceding > r1
                 then let m' = m - 1;
                          preceding' = preceding
                            - ([0, 31, 28, 31, 30, 31, 30, 31, 31, 30, 31, 30, 31] ! m'
                                 + (if m' = 2 \<and> leapyear then 1 else 0))
                      in (y, m', r1 - preceding' + 1)
                 else (y, m, r1 - preceding + 1))"

text \<open>
  \<open>strftime\<close> with the formats of the script.  \<open>%Y\<close> is written without padding, as the
  C library of Linux does; \<open>%m\<close> and \<open>%d\<close> have two digits.
\<close>

definition strftime_Ymd :: "nat \<Rightarrow> string" where
  "strftime_Ymd date = (case ord2ymd date of (y, m, d) \<Rightarrow> str_nat y @ zero_pad 2 m @ zero_pad 2 d)"

definition strftime_bdY :: "nat \<Rightarrow> string" where
  "strftime_bdY date =
     (case ord2ymd date of (y, m, d) \<Rightarrow>
        [''Jan'', ''Feb'', ''Mar'', ''Apr'', ''May'', ''Jun'',
         ''Jul'', ''Aug'', ''Sep'', ''Oct'', ''Nov'', ''Dec''] ! (m - 1)
          @ zero_pad 2 d @ ''.'' @ str_nat y)"

definition build_week_url :: "nat \<Rightarrow> string" where
  "build_week_url date = ''https://www.forexfactory.com/calendar?week='' @ strftime_bdY date"

text \<open>The name of a week's table in \<open>DATA_DIR\<close>: \<open>week_YYYYMMDD.csv\<close>.\<close>

definition week_csv :: "nat \<Rightarrow> string" where
  "week_csv date = ''week_'' @ strftime_Ymd date @ ''.csv''"

subsection \<open>The world the campaign runs in\<close>

text \<open>
  A persisted table: the rows as \<open>to_csv\<close> writes them and \<open>read_csv\<close> reads them back,
  every cell a string, the timestamp as \<open>str\<close> prints it.  The type inference of
  \<open>read_csv\<close> (empty cells as NaN, numbers) is outside the model; the merge only orders
  the rows by their timestamp column, which holds strings.
\<close>

type_synonym csv_row = "(string, string) calendar_row"

definition to_csv_row :: "event_row \<Rightarrow> csv_row" where
  "to_csv_row r =
     \<lparr>timestamp = (case timestamp r of None \<Rightarrow> [] | Some dt \<Rightarrow> str_datetime dt),
      currency = currency r, impact = impact r, event = event r, actual = actual r,
      forecast = forecast r, previous = previous r, day = day r, event_id = event_id r\<rparr>"

text \<open>The lines the campaign logs, by message.\<close>

datatype log_entry =
    ScrapingWeek nat
  | RetryGet nat
  | NoEventsWithTimestamp nat
  | SavedEvents nat string
  | AlreadyScraped string
  | AttemptFailed nat nat py_error
  | RestartingDriver
  | FailedAllRetries nat
  | MergingAll
  | NoCsvFound
  | Merged nat string
  | AllWeeksCompleted

text \<open>
  The state the script reads and writes: the tables in \<open>DATA_DIR\<close> by file name, the
  debug files written (by path, in order), the log, and how often a page load and a
  driver start have been asked for.
\<close>

record world =
  calendar_dir :: "(string \<times> csv_row list) list"
  debug_files :: "string list"
  log :: "log_entry list"
  page_loads :: nat
  drivers :: nat

text \<open>
  What the run does not decide: the outcome of the \<open>k\<close>-th page load
  (\<open>driver.get(url)\<close> and the wait for the calendar table; the page source when both
  succeed, None when one raises), whether the \<open>k\<close>-th \<open>create_driver()\<close> returns, and the
  libraries of the parser.  The sleeps between attempts have no effect on the state.
\<close>

record env =
  page_load :: "nat \<Rightarrow> string \<Rightarrow> page option"
  driver_starts :: "nat \<Rightarrow> bool"
  lib :: libs

definition add_log :: "log_entry \<Rightarrow> world \<Rightarrow> world" where
  "add_log l w = w\<lparr>log := log w @ [l]\<rparr>"

subsection \<open>\<open>scrape_week\<close>\<close>

text \<open>
  The loop \<open>for attempt in range(1, 4)\<close> around the page load: the page of the first
  attempt that succeeds, None when all three fail.
\<close>

function load_page :: "env \<Rightarrow> string \<Rightarrow> nat \<Rightarrow> world \<Rightarrow> page option \<times> world" where
  "load_page E url attempt w =
     (if attempt \<ge> 4 then (None, w)
      else case page_load E (page_loads w) url of
             Some html \<Rightarrow> (Some html, w\<lparr>page_loads := page_loads w + 1\<rparr>)
           | None \<Rightarrow>
               load_page E url (attempt + 1)
                 (add_log (RetryGet attempt) (w\<lparr>page_loads := page_loads w + 1\<rparr>)))"
  by pat_completeness auto
termination
  by (relation "measure (\<lambda>(E, url, attempt, w). 4 - attempt)") auto

text \<open>
  \<open>scrape_week(driver, week_date)\<close>: the exception it raises, if any, and the world it
  leaves.  Only \<open>parse_calendar_html\<close> is called on the page.
\<close>

definition scrape_week :: "env \<Rightarrow> nat \<Rightarrow> world \<Rightarrow> py_error option \<times> world" where
  "scrape_week E week_date w =
     (let url = build_week_url week_date;
          w = add_log (ScrapingWeek week_date) w
      in case load_page E url 1 w of
           (None, w) \<Rightarrow> (Some RuntimeError, w)
         | (Some html, w) \<Rightarrow>
            (let w = w\<lparr>debug_files := debug_files w
                         @ [''debug/raw_html_'' @ strftime_Ymd week_date @ ''.html'']\<rparr>;
                 failed = (\<lambda>w. (Some RuntimeError,
                             w\<lparr>debug_files := debug_files w
                                 @ [''debug/ff_calendar_'' @ strftime_Ymd week_date @ ''.html'']\<rparr>))
             in case parse_calendar_html (lib E) html (debug_files w) of
                  (Inl ex, dbg) \<Rightarrow> failed (w\<lparr>debug_files := dbg\<rparr>)
                | (Inr df, dbg) \<Rightarrow>
                   (let w = w\<lparr>debug_files := dbg\<rparr>
                    in if df = [] then failed w
                       else let df = filter (\<lambda>r. timestamp r \<noteq> None) df
                            in if df = []
                               then (None, add_log (NoEventsWithTimestamp week_date) w)
                               else (None,
                                     add_log (SavedEvents (length df) (week_csv week_date))
                                       (w\<lparr>calendar_dir :=
                                            AList.update (week_csv week_date)
                                              (map to_csv_row df) (calendar_dir w)\<rparr>)))))"

subsection \<open>\<open>merge_all_weeks\<close>\<close>

definition startswith :: "string \<Rightarrow> string \<Rightarrow> bool" where
  "startswith s p = prefix p s"

definition endswith :: "string \<Rightarrow> string \<Rightarrow> bool" where
  "endswith s p = suffix p s"

text \<open>The weekly tables of \<open>DATA_DIR\<close>, in the order of their sorted names.\<close>

definition week_files :: "world \<Rightarrow> string list" where
  "week_files w =
     sort (filter (\<lambda>f. endswith f ''.csv'' \<and> startswith f ''week_'') (map fst (calendar_dir w)))"

definition read_csv :: "world \<Rightarrow> string \<Rightarrow> csv_row list" where
  "read_csv w f = (case map_of (calendar_dir w) f of None \<Rightarrow> [] | Some table \<Rightarrow> table)"

text \<open>
  \<open>merge_all_weeks()\<close>: all weekly tables concatenated, ordered by timestamp, written to
  \<open>fx_news.csv\<close>.  The sort is modelled as a stable one; pandas does not promise the
  order of rows with equal timestamps.  No row is dropped.
\<close>

definition merge_all_weeks :: "world \<Rightarrow> world" where
  "merge_all_weeks w =
     (let w = add_log MergingAll w;
          files = week_files w
      in if files = [] then add_log NoCsvFound w
         else let combined_df = concat (map (read_csv w) files);
                  combined_df = sort_key timestamp combined_df
              in add_log (Merged (length files) ''fx_news.csv'')
                   (w\<lparr>calendar_dir := AList.update ''fx_news.csv'' combined_df (calendar_dir w)\<rparr>))"

subsection \<open>\<open>main\<close>\<close>

definition MAX_RETRIES :: nat where
  "MAX_RETRIES = 3"

text \<open>
  The loop \<open>for attempt in range(1, MAX_RETRIES + 1)\<close> of one week, with its \<open>else\<close>
  branch.  Every exception of \<open>scrape_week\<close> is caught and logged.  After a failed attempt
  but the last, the driver is quit (any exception of that ignored) and a new one is
  created, outside any handler: when \<open>create_driver()\<close> raises, the exception leaves the
  loop and \<open>main\<close>.
\<close>

function retry_week :: "env \<Rightarrow> nat \<Rightarrow> nat \<Rightarrow> world \<Rightarrow> py_error option \<times> world" where
  "retry_week E current attempt w =
     (if attempt > MAX_RETRIES then (None, add_log (FailedAllRetries current) w)
      else case scrape_week E current w of
             (None, w) \<Rightarrow> (None, w)
           | (Some ex, w) \<Rightarrow>
              (let w = add_log (AttemptFailed attempt current ex) w
               in if attempt < MAX_RETRIES
                  then let w = add_log RestartingDriver w
                       in if driver_starts E (drivers w)
                          then retry_week E current (attempt + 1) (w\<lparr>drivers := drivers w + 1\<rparr>)
                          else (Some RuntimeError, w\<lparr>drivers := drivers w + 1\<rparr>)
                  else retry_week E current (attempt + 1) w))"
  by pat_completeness auto
termination
  by (relation "measure (\<lambda>(E, current, attempt, w). MAX_RETRIES + 1 - attempt)") auto

text \<open>
  The loop \<open>while current <= end\<close>.  A week whose table exists is logged and passed over
  before anything else is done for it.
\<close>

function campaign :: "env \<Rightarrow> nat \<Rightarrow> nat \<Rightarrow> world \<Rightarrow> py_error option \<times> world" where
  "campaign E current end w =
     (if current \<le> end
      then if week_csv current \<in> fst ` set (calendar_dir w)
           then (let w = add_log (AlreadyScraped (week_csv current)) w
                 in if current + 7 > max_ordinal then (Some OverflowError, w)
                    else campaign E (current + 7) end w)
           else case retry_week E current 1 w of
                  (Some ex, w) \<Rightarrow> (Some ex, w)
                | (None, w) \<Rightarrow>
                    (if current + 7 > max_ordinal then (Some OverflowError, w)
                     else campaign E (current + 7) end w)
      else (None, w))"
  by pat_completeness auto
termination
  by (relation "measure (\<lambda>(E, current, end, w). end + 1 - current)") auto

text \<open>
  \<open>main()\<close> for a parsed \<open>--start\<close> and \<open>--end\<close>: the driver is created, the weeks are
  walked, the driver is quit (any exception of that ignored), and the weekly tables are
  merged.  The exception a failing \<open>create_driver()\<close> raises is modelled as RuntimeError.
\<close>

definition main :: "env \<Rightarrow> nat \<Rightarrow> nat \<Rightarrow> world \<Rightarrow> py_error option \<times> world" where
  "main E start end w =
     (if \<not> driver_starts E (drivers w) then (Some RuntimeError, w\<lparr>drivers := drivers w + 1\<rparr>)
      else case campaign E start end (w\<lparr>drivers := drivers w + 1\<rparr>) of
             (Some ex, w) \<Rightarrow> (Some ex, w)
           | (None, w) \<Rightarrow> (None, add_log AllWeeksCompleted (merge_all_weeks w)))"

section \<open>Properties of label\_filtered\_candles.py\<close>








section \<open>Properties of align\_news\_to\_ohlcv.py\<close>




lemma sort_values_mset: "is_sort_values sv \<Longrightarrow> mset (sv key xs) = mset xs"
  by (simp add: is_sort_values_def)

lemma sort_values_set: "is_sort_values sv \<Longrightarrow> set (sv key xs) = set xs"
  by (metis sort_values_mset set_mset_mset)







lemma tag_loop_total:
  "\<forall>(i, t) \<in> set cs. \<exists>r. tag_of sv news t w = Inr r \<Longrightarrow> \<exists>tags'. tag_loop sv news w cs tags = Inr tags'"
  by (induction sv news w cs tags rule: tag_loop.induct) (auto split: sum.splits option.splits)






lemma map_enumerate_snd: "map (\<lambda>(label, c). f c) (enumerate n xs) = map f xs"
  by (induction xs arbitrary: n) auto

lemma candle_times:
  assumes "is_sort_values sv"
  shows "snd ` set (enumerate 0 (map (\<lambda>(label, c). time c)
           (sv (\<lambda>(label, c). time c) (enumerate 0 df)))) = time ` set df"
proof -
  have "snd ` set (enumerate 0 (map (\<lambda>(label, c). time c)
       (sv (\<lambda>(label, c). time c) (enumerate 0 df))))
     = set (map (\<lambda>(label, c). time c) (sv (\<lambda>(label, c). time c) (enumerate 0 df)))"
    by (metis map_snd_enumerate set_map)
  also have "\<dots> = (\<lambda>(label, c). time c) ` set (enumerate 0 df)"
    using sort_values_set [OF assms] by (metis set_map)
  also have "\<dots> = set (map (\<lambda>(label, c). time c) (enumerate 0 df))" by simp
  also have "\<dots> = set (map time df)" by (simp only: map_enumerate_snd)
  finally show ?thesis by simp
qed


text \<open>When every candle's pick can be tagged, the join returns.\<close>

lemma tag_news_returns:
  assumes svc: "is_sort_values svc"
    and "\<forall>c \<in> set df. \<exists>r. tag_of svn (svn timestamp news_df) (time c) w = Inr r"
  shows "\<exists>out. tag_news_to_candles svc svn df news_df w = Inr out"
proof -
  let ?cs = "enumerate 0 (map (\<lambda>(label, c). time c)
       (svc (\<lambda>(label, c). time c) (enumerate 0 df)))"
  let ?news = "svn timestamp news_df"
  have "\<forall>(i, t) \<in> set ?cs. \<exists>r. tag_of svn ?news t w = Inr r"
  proof (clarify)
    fix i t assume "(i, t) \<in> set ?cs"
    then have "t \<in> snd ` set ?cs" by force
    then obtain c where "c \<in> set df" and "t = time c"
      unfolding candle_times [OF svc] by auto
    with assms(2) show "\<exists>r. tag_of svn ?news t w = Inr r" by auto
  qed
  from tag_loop_total [OF this]
  obtain tags where "tag_loop svn ?news w ?cs (replicate (length df) None) = Inr tags" by blast
  then show ?thesis by (simp add: tag_news_to_candles_def Let_def)
qed












section \<open>Properties of the parsers\<close>

lemma repair_day_idem: "repair_day (repair_day s) = repair_day s"
  by (simp add: repair_day_def nth_append isspace_def)

lemma repair_day_fused:
  "length s \<ge> 6 \<Longrightarrow> \<not> isspace (s ! 3) \<Longrightarrow> repair_day s = take 3 s @ '' '' @ drop 3 s"
  by (simp add: repair_day_def)

lemma repair_day_repaired:
  "length s \<ge> 6 \<Longrightarrow> repair_day (take 3 s @ '' '' @ drop 3 s) = take 3 s @ '' '' @ drop 3 s"
  by (simp add: repair_day_def nth_append isspace_def)

lemma split_ws_append_space:
  "isspace c \<Longrightarrow> split_ws acc (s @ c # t) = split_ws acc s @ split_ws [] t"
  by (induction s arbitrary: acc) auto

lemma split_append_space: "isspace c \<Longrightarrow> split (s @ c # t) = split s @ split t"
  by (simp add: split_def split_ws_append_space)

lemma isspace_blank: "isspace (CHR '' '')"
  by (simp add: isspace_def)

lemma split_all_day: "split ''All Day'' = [''All'', ''Day'']"
  by (simp add: split_def isspace_def)

lemma strptime_datetime_all_day: "strptime_datetime (s @ '' All Day'') = None"
proof -
  have sp: "split (s @ '' All Day'') = split s @ [''All'', ''Day'']"
    using split_append_space [OF isspace_blank, of s "''All Day''"] by (simp add: split_all_day)
  have "match_clock ''Day'' = None" by (simp add: match_clock_def)
  show ?thesis
  proof (cases "ws_fields (s @ '' All Day'')")
    case None
    then show ?thesis by (simp add: strptime_datetime_def)
  next
    case (Some toks)
    then have toks: "toks = split s @ [''All'', ''Day'']"
      using sp by (auto simp: ws_fields_def split: if_splits)
    show ?thesis
    proof (cases "\<exists>a b d Y t. toks = [a, b, d, Y, t]")
      case True
      then obtain a b d Y t where five: "toks = [a, b, d, Y, t]" by blast
      with toks have "t = ''Day''" by (metis last_snoc last.simps list.distinct(1) append_assoc append_Cons append_Nil last_appendR)
      with five Some \<open>match_clock ''Day'' = None\<close> show ?thesis
        by (simp add: strptime_datetime_def split: option.splits)
    next
      case False
      with Some show ?thesis
        by (auto simp: strptime_datetime_def split: list.splits option.splits)
    qed
  qed
qed


lemma parse_calendar_time_repaired:
  assumes "length day_str \<ge> 6" and "\<not> isspace (day_str ! 3)"
  shows "parse_calendar_time week_date day_str time_str
         = parse_calendar_time week_date (take 3 day_str @ '' '' @ drop 3 day_str) time_str"
proof -
  have "repair_day day_str = take 3 day_str @ '' '' @ drop 3 day_str"
    using assms by (rule repair_day_fused)
  moreover have "repair_day (take 3 day_str @ '' '' @ drop 3 day_str)
                 = take 3 day_str @ '' '' @ drop 3 day_str"
    using assms(1) by (rule repair_day_repaired)
  ultimately show ?thesis
    unfolding parse_calendar_time_def by simp
qed

lemma date_mon_jul_01: "strptime_date ''Mon Jul 01 2024''
    = Some \<lparr>year = 2024, month = 7, mday = 1, hour = 0, minute = 0, second = 0\<rparr>"
  by code_simp

lemma datetime_mon_jul_01_all_day: "strptime_datetime ''Mon Jul 01 2024 All Day'' = None"
  by code_simp

lemma datetime_mon_jul_01_830: "strptime_datetime ''Mon Jul 01 2024 8:30am''
    = Some \<lparr>year = 2024, month = 7, mday = 1, hour = 8, minute = 30, second = 0\<rparr>"
  by code_simp

lemma str_nat_2024: "str_nat 2024 = ''2024''"
  by code_simp

lemma repair_MonJul_01: "repair_day ''MonJul 01'' = ''Mon Jul 01''"
  by (simp add: repair_day_def isspace_def)

lemma repair_Mon_Jul_01: "repair_day ''Mon Jul 01'' = ''Mon Jul 01''"
  by (simp add: repair_day_def isspace_def)

text \<open>
  C6 (as amended).  A day heading whose weekday and month are fused (six characters or
  more, the fourth not white space) parses to the same result as the heading with one
  blank inserted after the weekday, whatever the week and the time string.  For a week
  anchored in 2024, the fused heading \<open>MonJul 01\<close> parses like \<open>Mon Jul 01\<close>: to
  2024-07-01, at midnight for the time string \<open>All Day\<close> and at the clock time otherwise.
\<close>

theorem parse_calendar_time_fusion_repair:
  "(length day_str \<ge> 6 \<and> \<not> isspace (day_str ! 3) \<longrightarrow>
      parse_calendar_time week_date day_str time_str
      = parse_calendar_time week_date (take 3 day_str @ '' '' @ drop 3 day_str) time_str)
   \<and> (year wd = 2024 \<longrightarrow>
        parse_calendar_time (Some wd) ''MonJul 01'' ''All Day''
          = Inr \<lparr>year = 2024, month = 7, mday = 1, hour = 0, minute = 0, second = 0\<rparr>
      \<and> parse_calendar_time (Some wd) ''Mon Jul 01'' ''All Day''
          = Inr \<lparr>year = 2024, month = 7, mday = 1, hour = 0, minute = 0, second = 0\<rparr>
      \<and> parse_calendar_time (Some wd) ''MonJul 01'' ''8:30am''
          = Inr \<lparr>year = 2024, month = 7, mday = 1, hour = 8, minute = 30, second = 0\<rparr>)"
proof (intro conjI impI)
  assume "length day_str \<ge> 6 \<and> \<not> isspace (day_str ! 3)"
  then show "parse_calendar_time week_date day_str time_str
      = parse_calendar_time week_date (take 3 day_str @ '' '' @ drop 3 day_str) time_str"
    using parse_calendar_time_repaired by blast
next
  assume y: "year wd = 2024"
  show "parse_calendar_time (Some wd) ''MonJul 01'' ''All Day''
          = Inr \<lparr>year = 2024, month = 7, mday = 1, hour = 0, minute = 0, second = 0\<rparr>"
    by (simp add: parse_calendar_time_def y str_nat_2024 repair_MonJul_01 repair_Mon_Jul_01
        datetime_mon_jul_01_all_day date_mon_jul_01 del: str_nat.simps)
next
  assume y: "year wd = 2024"
  show "parse_calendar_time (Some wd) ''Mon Jul 01'' ''All Day''
          = Inr \<lparr>year = 2024, month = 7, mday = 1, hour = 0, minute = 0, second = 0\<rparr>"
    by (simp add: parse_calendar_time_def y str_nat_2024 repair_Mon_Jul_01
        datetime_mon_jul_01_all_day date_mon_jul_01 del: str_nat.simps)
next
  assume y: "year wd = 2024"
  show "parse_calendar_time (Some wd) ''MonJul 01'' ''8:30am''
          = Inr \<lparr>year = 2024, month = 7, mday = 1, hour = 8, minute = 30, second = 0\<rparr>"
    by (simp add: parse_calendar_time_def y str_nat_2024 repair_MonJul_01 repair_Mon_Jul_01
        datetime_mon_jul_01_830 del: str_nat.simps)
qed

theorem parse_calendar_time_fusion_repair_witness:
  "parse_calendar_time (Some \<lparr>year = 2024, month = 7, mday = 1, hour = 0, minute = 0, second = 0\<rparr>)
     ''MonJul 01'' ''All Day''
   = Inr \<lparr>year = 2024, month = 7, mday = 1, hour = 0, minute = 0, second = 0\<rparr>
   \<and> parse_calendar_time (Some \<lparr>year = 2024, month = 7, mday = 1, hour = 0, minute = 0, second = 0\<rparr>)
     ''MonJul 01'' ''8:30am''
   = parse_calendar_time (Some \<lparr>year = 2024, month = 7, mday = 1, hour = 0, minute = 0, second = 0\<rparr>)
     ''Mon Jul 01'' ''8:30am''"
  using parse_calendar_time_fusion_repair
    [of "''MonJul 01''" "Some \<lparr>year = 2024, month = 7, mday = 1, hour = 0, minute = 0, second = 0\<rparr>"
        "''8:30am''" "\<lparr>year = 2024, month = 7, mday = 1, hour = 0, minute = 0, second = 0\<rparr>"]
  by (simp add: isspace_def)

text \<open>
  The heading \<open>MonJul01\<close> of C6 as the specification states it: the repair gives
  \<open>Mon Jul01\<close>, which neither format accepts, since each asks for white space between the
  month and the day.  \<open>parse_calendar_time\<close> raises RuntimeError instead of returning
  2024-07-01, for a blank time, \<open>All Day\<close> and a clock time alike.
\<close>

theorem parse_calendar_time_MonJul01_counterexample:
  "parse_calendar_time (Some \<lparr>year = 2024, month = 7, mday = 1, hour = 0, minute = 0, second = 0\<rparr>)
     ''MonJul01'' ''All Day'' = Inl RuntimeError
   \<and> parse_calendar_time (Some \<lparr>year = 2024, month = 7, mday = 1, hour = 0, minute = 0, second = 0\<rparr>)
     ''MonJul01'' [] = Inl RuntimeError
   \<and> parse_calendar_time (Some \<lparr>year = 2024, month = 7, mday = 1, hour = 0, minute = 0, second = 0\<rparr>)
     ''MonJul01'' ''8:30am'' = Inl RuntimeError
   \<and> parse_calendar_time (Some \<lparr>year = 2024, month = 7, mday = 1, hour = 0, minute = 0, second = 0\<rparr>)
     ''Mon Jul01'' ''8:30am'' = Inl RuntimeError"
  by code_simp

lemma strptime_date_midnight:
  "strptime_date s = Some dt \<Longrightarrow> hour dt = 0 \<and> minute dt = 0 \<and> second dt = 0"
  unfolding strptime_date_def
  by (cases "ws_fields s") (auto split: list.splits option.splits if_splits)

lemma parse_calendar_time_all_day:
  "parse_calendar_time (Some wd) d ''All Day''
   = (case strptime_date (repair_day d @ '' '' @ str_nat (year wd)) of
        Some dt \<Rightarrow> Inr dt | None \<Rightarrow> Inl RuntimeError)"
proof -
  have "strptime_datetime ((repair_day d @ '' '' @ str_nat (year wd)) @ '' All Day'') = None"
    by (rule strptime_datetime_all_day)
  then have "strptime_datetime (repair_day d @ '' '' @ str_nat (year wd) @ '' '' @ ''All Day'') = None"
    by simp
  then show ?thesis
    unfolding parse_calendar_time_def Let_def repair_day_idem
    by (simp del: str_nat.simps)
qed

text \<open>
  C7 (as amended).  In the loop of \<open>parse_calendar_dom\<close>, with \<open>d\<close> the day heading in
  force at a row (its own date cell, else the inherited one): a row whose time string is
  blank, or that has no day heading, is skipped; a row whose time string is \<open>All Day\<close>
  and whose day heading parses as a date in the week's anchor year is kept, with that
  date at midnight as its timestamp (no hour, minute or second); when the heading does
  not parse, the row is skipped.
\<close>

theorem dom_rows_all_day_kept_blank_skipped:
  fixes row :: dom_row
  shows
  "(let d = (case date_cell row of None \<Rightarrow> current_day | Some x \<Rightarrow> x) in
     (text_or_empty (time_cell row) = [] \<or> d = [] \<longrightarrow>
        dom_rows week_date current_day (row # rows) = dom_rows week_date d rows)
     \<and> (time_cell row = Some ''All Day'' \<and> d \<noteq> [] \<longrightarrow>
          (case strptime_date (repair_day d @ '' '' @ str_nat (year wd)) of
             None \<Rightarrow> dom_rows (Some wd) current_day (row # rows) = dom_rows (Some wd) d rows
           | Some dt \<Rightarrow>
               hour dt = 0 \<and> minute dt = 0 \<and> second dt = 0
               \<and> (\<exists>r. dom_rows (Some wd) current_day (row # rows) = r # dom_rows (Some wd) d rows
                      \<and> timestamp r = Some dt \<and> day r = d
                      \<and> currency r = text_or_empty (currency_cell row)
                      \<and> event r = text_or_empty (event_title row)))))"
proof -
  define d where "d = (case date_cell row of None \<Rightarrow> current_day | Some x \<Rightarrow> x)"
  have skip: "text_or_empty (time_cell row) = [] \<or> d = [] \<longrightarrow>
        dom_rows week_date current_day (row # rows) = dom_rows week_date d rows"
    by (auto simp: d_def Let_def)
  have keep: "time_cell row = Some ''All Day'' \<and> d \<noteq> [] \<longrightarrow>
          (case strptime_date (repair_day d @ '' '' @ str_nat (year wd)) of
             None \<Rightarrow> dom_rows (Some wd) current_day (row # rows) = dom_rows (Some wd) d rows
           | Some dt \<Rightarrow>
               hour dt = 0 \<and> minute dt = 0 \<and> second dt = 0
               \<and> (\<exists>r. dom_rows (Some wd) current_day (row # rows) = r # dom_rows (Some wd) d rows
                      \<and> timestamp r = Some dt \<and> day r = d
                      \<and> currency r = text_or_empty (currency_cell row)
                      \<and> event r = text_or_empty (event_title row)))"
  proof
    assume a: "time_cell row = Some ''All Day'' \<and> d \<noteq> []"
    then have t: "text_or_empty (time_cell row) = ''All Day''" by (simp add: text_or_empty_def)
    show "case strptime_date (repair_day d @ '' '' @ str_nat (year wd)) of
             None \<Rightarrow> dom_rows (Some wd) current_day (row # rows) = dom_rows (Some wd) d rows
           | Some dt \<Rightarrow>
               hour dt = 0 \<and> minute dt = 0 \<and> second dt = 0
               \<and> (\<exists>r. dom_rows (Some wd) current_day (row # rows) = r # dom_rows (Some wd) d rows
                      \<and> timestamp r = Some dt \<and> day r = d
                      \<and> currency r = text_or_empty (currency_cell row)
                      \<and> event r = text_or_empty (event_title row))"
    proof (cases "strptime_date (repair_day d @ '' '' @ str_nat (year wd))")
      case None
      then have "parse_calendar_time (Some wd) d ''All Day'' = Inl RuntimeError"
        by (simp only: parse_calendar_time_all_day option.case)
      with a t None show ?thesis
        by (simp add: d_def [symmetric] Let_def del: str_nat.simps)
    next
      case (Some dt)
      then have p: "parse_calendar_time (Some wd) d ''All Day'' = Inr dt"
        by (simp only: parse_calendar_time_all_day option.case)
      from strptime_date_midnight [OF Some]
      have m: "hour dt = 0 \<and> minute dt = 0 \<and> second dt = 0" .
      from a t p have "\<exists>r. dom_rows (Some wd) current_day (row # rows) = r # dom_rows (Some wd) d rows
                      \<and> timestamp r = Some dt \<and> day r = d
                      \<and> currency r = text_or_empty (currency_cell row)
                      \<and> event r = text_or_empty (event_title row)"
        by (simp add: d_def [symmetric] Let_def del: str_nat.simps)
      with m Some show ?thesis by (simp del: str_nat.simps)
    qed
  qed
  from skip keep show ?thesis
    unfolding d_def [symmetric] Let_def by blast
qed

lemma date_mon_jul_1: "strptime_date ''Mon Jul 1 2024''
    = Some \<lparr>year = 2024, month = 7, mday = 1, hour = 0, minute = 0, second = 0\<rparr>"
  by code_simp

theorem dom_rows_all_day_kept_blank_skipped_witness:
  "(\<exists>r. dom_rows (Some \<lparr>year = 2024, month = 7, mday = 1, hour = 0, minute = 0, second = 0\<rparr>) ''Mon Jul 1''
      [\<lparr>time_cell = Some ''All Day'', date_cell = None, currency_cell = Some ''USD'',
        impact_cell = Some (Some ''Non-Economic''), event_title = Some ''Bank Holiday'',
        actual_cell = None, forecast_cell = None, previous_cell = None\<rparr>] = [r]
      \<and> timestamp r = Some \<lparr>year = 2024, month = 7, mday = 1, hour = 0, minute = 0, second = 0\<rparr>
      \<and> day r = ''Mon Jul 1'' \<and> currency r = ''USD'' \<and> event r = ''Bank Holiday'')
   \<and> dom_rows (Some \<lparr>year = 2024, month = 7, mday = 1, hour = 0, minute = 0, second = 0\<rparr>) ''Mon Jul 1''
      [\<lparr>time_cell = Some [], date_cell = None, currency_cell = Some ''USD'',
        impact_cell = Some (Some ''Non-Economic''), event_title = Some ''Bank Holiday'',
        actual_cell = None, forecast_cell = None, previous_cell = None\<rparr>] = []"
proof -
  let ?wd = "\<lparr>year = 2024, month = 7, mday = 1, hour = 0, minute = 0, second = 0\<rparr>"
  let ?a = "\<lparr>time_cell = Some ''All Day'', date_cell = None, currency_cell = Some ''USD'',
        impact_cell = Some (Some ''Non-Economic''), event_title = Some ''Bank Holiday'',
        actual_cell = None, forecast_cell = None, previous_cell = None\<rparr>"
  let ?b = "\<lparr>time_cell = Some [], date_cell = None, currency_cell = Some ''USD'',
        impact_cell = Some (Some ''Non-Economic''), event_title = Some ''Bank Holiday'',
        actual_cell = None, forecast_cell = None, previous_cell = None\<rparr>"
  have rd: "repair_day ''Mon Jul 1'' = ''Mon Jul 1''"
    by (simp add: repair_day_def isspace_def)
  have first: "\<exists>r. dom_rows (Some ?wd) ''Mon Jul 1'' [?a] = [r]
      \<and> timestamp r = Some ?wd
      \<and> day r = ''Mon Jul 1'' \<and> currency r = ''USD'' \<and> event r = ''Bank Holiday''"
    using dom_rows_all_day_kept_blank_skipped
            [where row = ?a and current_day = "''Mon Jul 1''" and week_date = "Some ?wd"
               and rows = "[]" and wd = ?wd]
    by (simp add: rd str_nat_2024 date_mon_jul_1 text_or_empty_def Let_def del: str_nat.simps dom_rows.simps(2))
  have second: "dom_rows (Some ?wd) ''Mon Jul 1'' [?b] = []"
    using dom_rows_all_day_kept_blank_skipped
            [where row = ?b and current_day = "''Mon Jul 1''" and week_date = "Some ?wd"
               and rows = "[]" and wd = ?wd]
    by (simp add: text_or_empty_def Let_def del: str_nat.simps dom_rows.simps(2))
  from first second show ?thesis by blast
qed

text \<open>
  Against C7 as the specification states it: the second row has a blank time and inherits
  the day heading \<open>Mon Jul 1\<close> of the first, and it is not kept.
\<close>

theorem parse_calendar_dom_blank_time_counterexample:
  "parse_calendar_dom
     [\<lparr>time_cell = Some ''8:30am'', date_cell = Some ''Mon Jul 1'', currency_cell = Some ''USD'',
       impact_cell = Some (Some ''High Impact Expected''), event_title = Some ''CPI m/m'',
       actual_cell = Some ''0.1%'', forecast_cell = Some ''0.1%'', previous_cell = Some ''0.0%''\<rparr>,
      \<lparr>time_cell = Some [], date_cell = None, currency_cell = Some ''USD'',
       impact_cell = Some (Some ''Non-Economic''), event_title = Some ''Bank Holiday'',
       actual_cell = None, forecast_cell = None, previous_cell = None\<rparr>]
     (Some \<lparr>year = 2024, month = 7, mday = 1, hour = 0, minute = 0, second = 0\<rparr>)
   = [\<lparr>timestamp = Some \<lparr>year = 2024, month = 7, mday = 1, hour = 8, minute = 30, second = 0\<rparr>,
       currency = ''USD'', impact = ''High Impact Expected'', event = ''CPI m/m'',
       actual = ''0.1%'', forecast = ''0.1%'', previous = ''0.0%'', day = ''Mon Jul 1'',
       event_id = md5_id ''2024-07-01 08:30:00USDCPI m/m''\<rparr>]"
  by code_simp

section \<open>Properties of the merge\<close>

lemma calendar_dir_add_log [simp]: "calendar_dir (add_log l w) = calendar_dir w"
  and page_loads_add_log [simp]: "page_loads (add_log l w) = page_loads w"
  and drivers_add_log [simp]: "drivers (add_log l w) = drivers w"
  and debug_files_add_log [simp]: "debug_files (add_log l w) = debug_files w"
  and log_add_log [simp]: "log (add_log l w) = log w @ [l]"
  by (simp_all add: add_log_def)

lemma week_files_cong: "calendar_dir w = calendar_dir w' \<Longrightarrow> week_files w = week_files w'"
  by (simp add: week_files_def)

lemma read_csv_cong: "calendar_dir w = calendar_dir w' \<Longrightarrow> read_csv w = read_csv w'"
  by (auto simp: read_csv_def fun_eq_iff)

lemma merge_all_weeks_calendar:
  "calendar_dir (merge_all_weeks w)
   = (if week_files w = [] then calendar_dir w
      else AList.update ''fx_news.csv''
             (sort_key timestamp (concat (map (read_csv w) (week_files w)))) (calendar_dir w))"
proof -
  have wf: "week_files (add_log MergingAll w) = week_files w"
    by (rule week_files_cong) simp
  have rc: "read_csv (add_log MergingAll w) = read_csv w"
    by (rule read_csv_cong) simp
  show ?thesis
    by (simp add: merge_all_weeks_def Let_def wf rc)
qed

lemma length_filter_concat:
  "length (filter P (concat xss)) = sum_list (map (\<lambda>xs. length (filter P xs)) xss)"
  by (induction xss) auto

lemma length_filter_sort_key:
  "length (filter P (sort_key f xs)) = length (filter P xs)"
  by (simp add: filter_sort)

text \<open>
  C3 (as amended).  When there is a weekly table, \<open>merge_all_weeks\<close> writes to
  \<open>fx_news.csv\<close> every row of every weekly table, once for each time it occurs, ordered
  by timestamp: for every \<open>event_id\<close>, the merged table has as many rows with it as the
  weekly tables have together.  Nothing is deduplicated, so a key that two weekly tables
  share keeps both rows, each with its own actual and forecast values.
\<close>

theorem merge_all_weeks_keeps_every_row:
  assumes "week_files w \<noteq> []"
  shows "\<exists>merged.
           map_of (calendar_dir (merge_all_weeks w)) ''fx_news.csv'' = Some merged
         \<and> mset merged = mset (concat (map (read_csv w) (week_files w)))
         \<and> sorted (map timestamp merged)
         \<and> (\<forall>key. length (filter (\<lambda>r. event_id r = key) merged)
                  = sum_list (map (\<lambda>f. length (filter (\<lambda>r. event_id r = key) (read_csv w f)))
                                  (week_files w)))"
proof -
  let ?all = "concat (map (read_csv w) (week_files w))"
  let ?merged = "sort_key timestamp ?all"
  have "map_of (calendar_dir (merge_all_weeks w)) ''fx_news.csv'' = Some ?merged"
    using assms by (simp add: merge_all_weeks_calendar update_Some_unfold)
  moreover have "mset ?merged = mset ?all" by simp
  moreover have "sorted (map timestamp ?merged)" by (rule sorted_sort_key)
  moreover have "\<forall>key. length (filter (\<lambda>r. event_id r = key) ?merged)
                  = sum_list (map (\<lambda>f. length (filter (\<lambda>r. event_id r = key) (read_csv w f)))
                                  (week_files w))"
    by (simp add: length_filter_sort_key length_filter_concat comp_def)
  ultimately show ?thesis by blast
qed

lemma week_files_two:
  "week_files \<lparr>calendar_dir = [(''week_20240701.csv'', a), (''week_20240708.csv'', b)],
       debug_files = [], log = [], page_loads = 0, drivers = 0\<rparr>
   = [''week_20240701.csv'', ''week_20240708.csv'']"
  by code_simp

theorem merge_all_weeks_keeps_every_row_witness:
  "\<exists>merged.
     map_of (calendar_dir (merge_all_weeks
       \<lparr>calendar_dir =
          [(''week_20240701.csv'',
            [\<lparr>timestamp = ''2024-07-05 08:30:00'', currency = ''USD'', impact = ''High Impact Expected'',
              event = ''Non-Farm Employment Change'', actual = [], forecast = ''191K'',
              previous = ''272K'', day = ''Fri Jul 5'',
              event_id = ''7ac1f4a8f7d0a1c2a4d6e5b3c2f1e0d9''\<rparr>]),
           (''week_20240708.csv'',
            [\<lparr>timestamp = ''2024-07-05 08:30:00'', currency = ''USD'', impact = ''High Impact Expected'',
              event = ''Non-Farm Employment Change'', actual = ''206K'', forecast = ''191K'',
              previous = ''272K'', day = ''Fri Jul 5'',
              event_id = ''7ac1f4a8f7d0a1c2a4d6e5b3c2f1e0d9''\<rparr>])],
        debug_files = [], log = [], page_loads = 0, drivers = 0\<rparr>)) ''fx_news.csv'' = Some merged
     \<and> length (filter (\<lambda>r. event_id r = ''7ac1f4a8f7d0a1c2a4d6e5b3c2f1e0d9'') merged) = 2"
proof -
  let ?a = "[\<lparr>timestamp = ''2024-07-05 08:30:00'', currency = ''USD'', impact = ''High Impact Expected'',
              event = ''Non-Farm Employment Change'', actual = [], forecast = ''191K'',
              previous = ''272K'', day = ''Fri Jul 5'',
              event_id = ''7ac1f4a8f7d0a1c2a4d6e5b3c2f1e0d9''\<rparr>]"
  let ?b = "[\<lparr>timestamp = ''2024-07-05 08:30:00'', currency = ''USD'', impact = ''High Impact Expected'',
              event = ''Non-Farm Employment Change'', actual = ''206K'', forecast = ''191K'',
              previous = ''272K'', day = ''Fri Jul 5'',
              event_id = ''7ac1f4a8f7d0a1c2a4d6e5b3c2f1e0d9''\<rparr>]"
  let ?w = "\<lparr>calendar_dir = [(''week_20240701.csv'', ?a), (''week_20240708.csv'', ?b)],
        debug_files = [], log = [], page_loads = 0, drivers = 0\<rparr>"
  have wf: "week_files ?w = [''week_20240701.csv'', ''week_20240708.csv'']"
    by (rule week_files_two)
  then have ne: "week_files ?w \<noteq> []" by simp
  from merge_all_weeks_keeps_every_row [OF ne]
  obtain merged where m: "map_of (calendar_dir (merge_all_weeks ?w)) ''fx_news.csv'' = Some merged"
    and c: "\<forall>key. length (filter (\<lambda>r. event_id r = key) merged)
                  = sum_list (map (\<lambda>f. length (filter (\<lambda>r. event_id r = key) (read_csv ?w f)))
                                  (week_files ?w))"
    by blast
  from c [rule_format, of "''7ac1f4a8f7d0a1c2a4d6e5b3c2f1e0d9''"]
  have "length (filter (\<lambda>r. event_id r = ''7ac1f4a8f7d0a1c2a4d6e5b3c2f1e0d9'') merged) = 2"
    by (simp add: wf read_csv_def)
  with m show ?thesis by blast
qed

text \<open>
  Against C3 as the specification states it: two weekly tables share one \<open>event_id\<close>
  with differing \<open>actual\<close> values, and the merged table has both rows, not one.
\<close>

theorem merge_all_weeks_duplicate_key_counterexample:
  "map_of (calendar_dir (merge_all_weeks
       \<lparr>calendar_dir =
          [(''week_20240701.csv'',
            [\<lparr>timestamp = ''2024-07-05 08:30:00'', currency = ''USD'', impact = ''High Impact Expected'',
              event = ''Non-Farm Employment Change'', actual = [], forecast = ''191K'',
              previous = ''272K'', day = ''Fri Jul 5'',
              event_id = ''7ac1f4a8f7d0a1c2a4d6e5b3c2f1e0d9''\<rparr>]),
           (''week_20240708.csv'',
            [\<lparr>timestamp = ''2024-07-05 08:30:00'', currency = ''USD'', impact = ''High Impact Expected'',
              event = ''Non-Farm Employment Change'', actual = ''206K'', forecast = ''191K'',
              previous = ''272K'', day = ''Fri Jul 5'',
              event_id = ''7ac1f4a8f7d0a1c2a4d6e5b3c2f1e0d9''\<rparr>])],
        debug_files = [], log = [], page_loads = 0, drivers = 0\<rparr>)) ''fx_news.csv''
   = Some [\<lparr>timestamp = ''2024-07-05 08:30:00'', currency = ''USD'', impact = ''High Impact Expected'',
              event = ''Non-Farm Employment Change'', actual = [], forecast = ''191K'',
              previous = ''272K'', day = ''Fri Jul 5'',
              event_id = ''7ac1f4a8f7d0a1c2a4d6e5b3c2f1e0d9''\<rparr>,
           \<lparr>timestamp = ''2024-07-05 08:30:00'', currency = ''USD'', impact = ''High Impact Expected'',
              event = ''Non-Farm Employment Change'', actual = ''206K'', forecast = ''191K'',
              previous = ''272K'', day = ''Fri Jul 5'',
              event_id = ''7ac1f4a8f7d0a1c2a4d6e5b3c2f1e0d9''\<rparr>]"
  by (simp add: merge_all_weeks_calendar week_files_two read_csv_def)

section \<open>Properties of the event identity\<close>

lemma html_event_id:
  assumes "html_event L d ev = Some r"
  shows "event_id r = md5_id (str_timestamp (timestamp r) @ currency r @ event r)"
proof (cases ev)
  case (JObj e)
  with assms show ?thesis
    unfolding html_event_def Let_def
    by (auto split: if_splits sum.splits)
qed (use assms in \<open>simp_all add: html_event_def\<close>)

lemma json_event_id:
  assumes "json_event L d ev = Some r"
  shows "event_id r = md5_id (str_timestamp (timestamp r) @ currency r
           @ (if event r \<noteq> [] then event r
              else ''actual:'' @ actual r @ ''|forecast:'' @ forecast r
                     @ ''|previous:'' @ previous r))"
proof (cases ev)
  case (JObj e)
  with assms show ?thesis
    unfolding json_event_def Let_def
    by (auto split: if_splits sum.splits option.splits)
qed (use assms in \<open>simp_all add: json_event_def\<close>)

lemma in_map_filter: "y \<in> set (List.map_filter f xs) \<Longrightarrow> \<exists>x \<in> set xs. f x = Some y"
  by (induction xs) (auto split: option.splits)

lemma html_days_id:
  "html_days L days = Inr rows \<Longrightarrow> r \<in> set rows
     \<Longrightarrow> event_id r = md5_id (str_timestamp (timestamp r) @ currency r @ event r)"
proof (induction days arbitrary: rows)
  case Nil
  then show ?case by simp
next
  case (Cons d0 days)
  from Cons.prems(1) obtain d date_str evs rest where
    rest: "html_days L days = Inr rest"
    and rows: "rows = List.map_filter (html_event L date_str) evs @ rest"
    by (auto split: json.splits sum.splits)
  from Cons.prems(2) rows consider "r \<in> set (List.map_filter (html_event L date_str) evs)"
    | "r \<in> set rest" by auto
  then show ?case
  proof cases
    case 1
    then obtain ev where "html_event L date_str ev = Some r"
      using in_map_filter by fastforce
    then show ?thesis by (rule html_event_id)
  next
    case 2
    with Cons.IH [OF rest] show ?thesis .
  qed
qed

lemma json_days_id:
  "json_days L days = Inr rows \<Longrightarrow> r \<in> set rows
     \<Longrightarrow> event_id r = md5_id (str_timestamp (timestamp r) @ currency r
           @ (if event r \<noteq> [] then event r
              else ''actual:'' @ actual r @ ''|forecast:'' @ forecast r
                     @ ''|previous:'' @ previous r))"
proof (induction days arbitrary: rows)
  case Nil
  then show ?case by simp
next
  case (Cons d0 days)
  from Cons.prems(1) obtain d date_str evs rest where
    rest: "json_days L days = Inr rest"
    and rows: "rows = List.map_filter (json_event L date_str) evs @ rest"
    by (auto split: json.splits sum.splits)
  from Cons.prems(2) rows consider "r \<in> set (List.map_filter (json_event L date_str) evs)"
    | "r \<in> set rest" by auto
  then show ?case
  proof cases
    case 1
    then obtain ev where "json_event L date_str ev = Some r"
      using in_map_filter by fastforce
    then show ?thesis by (rule json_event_id)
  next
    case 2
    with Cons.IH [OF rest] show ?thesis .
  qed
qed

lemma parse_calendar_html_id:
  assumes "fst (parse_calendar_html L pg dbg) = Inr rows" and "r \<in> set rows"
  shows "event_id r = md5_id (str_timestamp (timestamp r) @ currency r @ event r)"
proof -
  from assms(1) obtain days where "html_days L days = Inr rows"
    unfolding parse_calendar_html_def Let_def
    by (auto split: option.splits sum.splits if_splits)
  from html_days_id [OF this assms(2)] show ?thesis .
qed

lemma parse_calendar_html_json_id:
  assumes "parse_calendar_html_json L data = Inr rows" and "r \<in> set rows"
  shows "event_id r = md5_id (str_timestamp (timestamp r) @ currency r
           @ (if event r \<noteq> [] then event r
              else ''actual:'' @ actual r @ ''|forecast:'' @ forecast r
                     @ ''|previous:'' @ previous r))"
proof -
  from assms(1) obtain days where "json_days L days = Inr rows"
    unfolding parse_calendar_html_json_def Let_def
    by (auto split: sum.splits bool.splits json.splits)
  from json_days_id [OF this assms(2)] show ?thesis .
qed

lemma dom_rows_id:
  "r \<in> set (dom_rows wd cur trs)
     \<Longrightarrow> event_id r = md5_id (str_timestamp (timestamp r) @ currency r
           @ (if event r \<noteq> [] then event r else actual r @ forecast r @ previous r))"
proof (induction trs arbitrary: cur)
  case Nil
  then show ?case by simp
next
  case (Cons tr trs)
  then show ?case
    by (auto simp: Let_def simp del: str_nat.simps split: if_splits sum.splits)
qed

text \<open>
  C2 (as amended).  The \<open>event_id\<close> of a row is a function of the row alone.  In
  \<open>parse_calendar_html\<close>, the parser \<open>scrape_week\<close> calls, it hashes the timestamp, the
  currency and the name: two rows, from any two pages and runs, that agree on these three
  have the same key, whatever their actual, forecast and previous values.  In
  \<open>parse_calendar_html_json\<close> and \<open>parse_calendar_dom\<close> the same holds for rows with a name.
\<close>

theorem event_id_ignores_revisions:
  "(fst (parse_calendar_html L pg dbg) = Inr rows \<and> r \<in> set rows
      \<and> fst (parse_calendar_html L' pg' dbg') = Inr rows' \<and> r' \<in> set rows'
      \<and> timestamp r = timestamp r' \<and> currency r = currency r' \<and> event r = event r'
    \<longrightarrow> event_id r = event_id r')
   \<and> (parse_calendar_html_json L data = Inr rows \<and> r \<in> set rows
      \<and> parse_calendar_html_json L' data' = Inr rows' \<and> r' \<in> set rows'
      \<and> timestamp r = timestamp r' \<and> currency r = currency r' \<and> event r = event r'
      \<and> event r \<noteq> []
    \<longrightarrow> event_id r = event_id r')
   \<and> (r \<in> set (parse_calendar_dom trs week_date) \<and> r' \<in> set (parse_calendar_dom trs' week_date')
      \<and> timestamp r = timestamp r' \<and> currency r = currency r' \<and> event r = event r'
      \<and> event r \<noteq> []
    \<longrightarrow> event_id r = event_id r')"
proof (intro conjI impI)
  assume a: "fst (parse_calendar_html L pg dbg) = Inr rows \<and> r \<in> set rows
      \<and> fst (parse_calendar_html L' pg' dbg') = Inr rows' \<and> r' \<in> set rows'
      \<and> timestamp r = timestamp r' \<and> currency r = currency r' \<and> event r = event r'"
  then have "event_id r = md5_id (str_timestamp (timestamp r) @ currency r @ event r)"
    and "event_id r' = md5_id (str_timestamp (timestamp r') @ currency r' @ event r')"
    using parse_calendar_html_id by blast+
  with a show "event_id r = event_id r'" by simp
next
  assume a: "parse_calendar_html_json L data = Inr rows \<and> r \<in> set rows
      \<and> parse_calendar_html_json L' data' = Inr rows' \<and> r' \<in> set rows'
      \<and> timestamp r = timestamp r' \<and> currency r = currency r' \<and> event r = event r'
      \<and> event r \<noteq> []"
  then have eq: "event r = event r'" and ne: "event r \<noteq> []" by blast+
  then have ne': "event r' \<noteq> []" by simp
  from a have "event_id r = md5_id (str_timestamp (timestamp r) @ currency r @ event r)"
    using parse_calendar_html_json_id [of L data rows r] ne by simp
  moreover from a have "event_id r' = md5_id (str_timestamp (timestamp r') @ currency r' @ event r')"
    using parse_calendar_html_json_id [of L' data' rows' r'] ne' by simp
  ultimately show "event_id r = event_id r'" using a by simp
next
  assume a: "r \<in> set (parse_calendar_dom trs week_date) \<and> r' \<in> set (parse_calendar_dom trs' week_date')
      \<and> timestamp r = timestamp r' \<and> currency r = currency r' \<and> event r = event r'
      \<and> event r \<noteq> []"
  then have eq: "event r = event r'" and ne: "event r \<noteq> []" by blast+
  then have ne': "event r' \<noteq> []" by simp
  from a have "event_id r = md5_id (str_timestamp (timestamp r) @ currency r @ event r)"
    using dom_rows_id [of r week_date "[]" trs] ne by (simp add: parse_calendar_dom_def)
  moreover from a have "event_id r' = md5_id (str_timestamp (timestamp r') @ currency r' @ event r')"
    using dom_rows_id [of r' week_date' "[]" trs'] ne' by (simp add: parse_calendar_dom_def)
  ultimately show "event_id r = event_id r'" using a by simp
qed

lemma parse_html_named_1:
  "parse_calendar_html \<lparr>fromtimestamp = (\<lambda>n. if n = 1719822600 then Some \<lparr>year = 2024, month = 7, mday = 1, hour = 8, minute = 30, second = 0\<rparr> else None), soup_text = (\<lambda>v. case v of JStr s \<Rightarrow> Inr s | _ \<Rightarrow> Inl TypeError)\<rparr>
     \<lparr>state_blob = Some ''{1: {days: []}}'', state_dict = Some [(''1'', JObj [(''days'', JArr [JObj [(''date'', JStr ''Mon Jul 1''), (''events'', JArr [JObj [(''dateline'', JNum 1719822600), (''name'', JStr ''CPI m/m''), (''currency'', JStr ''USD''), (''impactTitle'', JStr ''High Impact Expected''), (''actual'', JStr ''''), (''forecast'', JStr ''0.1%''), (''previous'', JStr ''0.0%'')]])]])])], calendar_rows = []\<rparr> []
   = (Inr [\<lparr>timestamp = Some \<lparr>year = 2024, month = 7, mday = 1, hour = 8, minute = 30, second = 0\<rparr>, currency = ''USD'', impact = ''High Impact Expected'', event = ''CPI m/m'', actual = '''', forecast = ''0.1%'', previous = ''0.0%'', day = ''Mon Jul 1'', event_id = ''f158834009e4ef8d73ee058e9d9b0896''\<rparr>], [''debug/raw_calendar_json.js''])"
  by code_simp

lemma parse_html_named_2:
  "parse_calendar_html \<lparr>fromtimestamp = (\<lambda>n. if n = 1719822600 then Some \<lparr>year = 2024, month = 7, mday = 1, hour = 8, minute = 30, second = 0\<rparr> else None), soup_text = (\<lambda>v. case v of JStr s \<Rightarrow> Inr s | _ \<Rightarrow> Inl TypeError)\<rparr>
     \<lparr>state_blob = Some ''{1: {days: []}}'', state_dict = Some [(''1'', JObj [(''days'', JArr [JObj [(''date'', JStr ''Mon Jul 1''), (''events'', JArr [JObj [(''dateline'', JNum 1719822600), (''name'', JStr ''CPI m/m''), (''currency'', JStr ''USD''), (''impactTitle'', JStr ''High Impact Expected''), (''actual'', JStr ''0.2%''), (''forecast'', JStr ''0.1%''), (''previous'', JStr ''0.0%'')]])]])])], calendar_rows = []\<rparr> []
   = (Inr [\<lparr>timestamp = Some \<lparr>year = 2024, month = 7, mday = 1, hour = 8, minute = 30, second = 0\<rparr>, currency = ''USD'', impact = ''High Impact Expected'', event = ''CPI m/m'', actual = ''0.2%'', forecast = ''0.1%'', previous = ''0.0%'', day = ''Mon Jul 1'', event_id = ''f158834009e4ef8d73ee058e9d9b0896''\<rparr>], [''debug/raw_calendar_json.js''])"
  by code_simp

theorem event_id_ignores_revisions_witness:
  "fst (parse_calendar_html \<lparr>fromtimestamp = (\<lambda>n. if n = 1719822600 then Some \<lparr>year = 2024, month = 7, mday = 1, hour = 8, minute = 30, second = 0\<rparr> else None), soup_text = (\<lambda>v. case v of JStr s \<Rightarrow> Inr s | _ \<Rightarrow> Inl TypeError)\<rparr>
     \<lparr>state_blob = Some ''{1: {days: []}}'', state_dict = Some [(''1'', JObj [(''days'', JArr [JObj [(''date'', JStr ''Mon Jul 1''), (''events'', JArr [JObj [(''dateline'', JNum 1719822600), (''name'', JStr ''CPI m/m''), (''currency'', JStr ''USD''), (''impactTitle'', JStr ''High Impact Expected''), (''actual'', JStr ''''), (''forecast'', JStr ''0.1%''), (''previous'', JStr ''0.0%'')]])]])])], calendar_rows = []\<rparr> []) = Inr [\<lparr>timestamp = Some \<lparr>year = 2024, month = 7, mday = 1, hour = 8, minute = 30, second = 0\<rparr>, currency = ''USD'', impact = ''High Impact Expected'', event = ''CPI m/m'', actual = '''', forecast = ''0.1%'', previous = ''0.0%'', day = ''Mon Jul 1'', event_id = ''f158834009e4ef8d73ee058e9d9b0896''\<rparr>]
   \<and> fst (parse_calendar_html \<lparr>fromtimestamp = (\<lambda>n. if n = 1719822600 then Some \<lparr>year = 2024, month = 7, mday = 1, hour = 8, minute = 30, second = 0\<rparr> else None), soup_text = (\<lambda>v. case v of JStr s \<Rightarrow> Inr s | _ \<Rightarrow> Inl TypeError)\<rparr>
     \<lparr>state_blob = Some ''{1: {days: []}}'', state_dict = Some [(''1'', JObj [(''days'', JArr [JObj [(''date'', JStr ''Mon Jul 1''), (''events'', JArr [JObj [(''dateline'', JNum 1719822600), (''name'', JStr ''CPI m/m''), (''currency'', JStr ''USD''), (''impactTitle'', JStr ''High Impact Expected''), (''actual'', JStr ''0.2%''), (''forecast'', JStr ''0.1%''), (''previous'', JStr ''0.0%'')]])]])])], calendar_rows = []\<rparr> []) = Inr [\<lparr>timestamp = Some \<lparr>year = 2024, month = 7, mday = 1, hour = 8, minute = 30, second = 0\<rparr>, currency = ''USD'', impact = ''High Impact Expected'', event = ''CPI m/m'', actual = ''0.2%'', forecast = ''0.1%'', previous = ''0.0%'', day = ''Mon Jul 1'', event_id = ''f158834009e4ef8d73ee058e9d9b0896''\<rparr>]
   \<and> event_id (\<lparr>timestamp = Some \<lparr>year = 2024, month = 7, mday = 1, hour = 8, minute = 30, second = 0\<rparr>, currency = ''USD'', impact = ''High Impact Expected'', event = ''CPI m/m'', actual = '''', forecast = ''0.1%'', previous = ''0.0%'', day = ''Mon Jul 1'', event_id = ''f158834009e4ef8d73ee058e9d9b0896''\<rparr>)
     = event_id (\<lparr>timestamp = Some \<lparr>year = 2024, month = 7, mday = 1, hour = 8, minute = 30, second = 0\<rparr>, currency = ''USD'', impact = ''High Impact Expected'', event = ''CPI m/m'', actual = ''0.2%'', forecast = ''0.1%'', previous = ''0.0%'', day = ''Mon Jul 1'', event_id = ''f158834009e4ef8d73ee058e9d9b0896''\<rparr>)"
proof -
  let ?L = "\<lparr>fromtimestamp = (\<lambda>n. if n = 1719822600 then Some \<lparr>year = 2024, month = 7, mday = 1, hour = 8, minute = 30, second = 0\<rparr> else None), soup_text = (\<lambda>v. case v of JStr s \<Rightarrow> Inr s | _ \<Rightarrow> Inl TypeError)\<rparr>"
  let ?r1 = "\<lparr>timestamp = Some \<lparr>year = 2024, month = 7, mday = 1, hour = 8, minute = 30, second = 0\<rparr>, currency = ''USD'', impact = ''High Impact Expected'', event = ''CPI m/m'', actual = '''', forecast = ''0.1%'', previous = ''0.0%'', day = ''Mon Jul 1'', event_id = ''f158834009e4ef8d73ee058e9d9b0896''\<rparr>"
  let ?r2 = "\<lparr>timestamp = Some \<lparr>year = 2024, month = 7, mday = 1, hour = 8, minute = 30, second = 0\<rparr>, currency = ''USD'', impact = ''High Impact Expected'', event = ''CPI m/m'', actual = ''0.2%'', forecast = ''0.1%'', previous = ''0.0%'', day = ''Mon Jul 1'', event_id = ''f158834009e4ef8d73ee058e9d9b0896''\<rparr>"
  have p1: "fst (parse_calendar_html ?L \<lparr>state_blob = Some ''{1: {days: []}}'', state_dict = Some [(''1'', JObj [(''days'', JArr [JObj [(''date'', JStr ''Mon Jul 1''), (''events'', JArr [JObj [(''dateline'', JNum 1719822600), (''name'', JStr ''CPI m/m''), (''currency'', JStr ''USD''), (''impactTitle'', JStr ''High Impact Expected''), (''actual'', JStr ''''), (''forecast'', JStr ''0.1%''), (''previous'', JStr ''0.0%'')]])]])])], calendar_rows = []\<rparr> []) = Inr [?r1]"
    by (simp only: parse_html_named_1 fst_conv)
  have p2: "fst (parse_calendar_html ?L \<lparr>state_blob = Some ''{1: {days: []}}'', state_dict = Some [(''1'', JObj [(''days'', JArr [JObj [(''date'', JStr ''Mon Jul 1''), (''events'', JArr [JObj [(''dateline'', JNum 1719822600), (''name'', JStr ''CPI m/m''), (''currency'', JStr ''USD''), (''impactTitle'', JStr ''High Impact Expected''), (''actual'', JStr ''0.2%''), (''forecast'', JStr ''0.1%''), (''previous'', JStr ''0.0%'')]])]])])], calendar_rows = []\<rparr> []) = Inr [?r2]"
    by (simp only: parse_html_named_2 fst_conv)
  have "event_id ?r1 = event_id ?r2"
    using event_id_ignores_revisions
      [where L = ?L and L' = ?L and pg = "\<lparr>state_blob = Some ''{1: {days: []}}'', state_dict = Some [(''1'', JObj [(''days'', JArr [JObj [(''date'', JStr ''Mon Jul 1''), (''events'', JArr [JObj [(''dateline'', JNum 1719822600), (''name'', JStr ''CPI m/m''), (''currency'', JStr ''USD''), (''impactTitle'', JStr ''High Impact Expected''), (''actual'', JStr ''''), (''forecast'', JStr ''0.1%''), (''previous'', JStr ''0.0%'')]])]])])], calendar_rows = []\<rparr>" and pg' = "\<lparr>state_blob = Some ''{1: {days: []}}'', state_dict = Some [(''1'', JObj [(''days'', JArr [JObj [(''date'', JStr ''Mon Jul 1''), (''events'', JArr [JObj [(''dateline'', JNum 1719822600), (''name'', JStr ''CPI m/m''), (''currency'', JStr ''USD''), (''impactTitle'', JStr ''High Impact Expected''), (''actual'', JStr ''0.2%''), (''forecast'', JStr ''0.1%''), (''previous'', JStr ''0.0%'')]])]])])], calendar_rows = []\<rparr>" and dbg = "[]" and dbg' = "[]"
         and rows = "[?r1]" and rows' = "[?r2]" and r = ?r1 and r' = ?r2] p1 p2
    by simp
  with p1 p2 show ?thesis by blast
qed

text \<open>
  Against C2 as the specification states it: in \<open>parse_calendar_html_json\<close> two events
  without a name that differ only in their \<open>actual\<close> value get different keys, since the
  fallback for the name is built from actual, forecast and previous.  (The machine's time
  zone is UTC, and the day label has no markup.)
\<close>

theorem event_id_unnamed_event_counterexample:
  "parse_calendar_html_json \<lparr>fromtimestamp = (\<lambda>n. if n = 1719822600 then Some \<lparr>year = 2024, month = 7, mday = 1, hour = 8, minute = 30, second = 0\<rparr> else None), soup_text = (\<lambda>v. case v of JStr s \<Rightarrow> Inr s | _ \<Rightarrow> Inl TypeError)\<rparr>
     [(''1'', JObj [(''days'', JArr [JObj [(''date'', JStr ''Mon Jul 1''), (''events'', JArr [JObj [(''dateline'', JNum 1719822600), (''name'', JStr ''''), (''currency'', JStr ''USD''), (''impactTitle'', JStr ''High Impact Expected''), (''actual'', JStr ''''), (''forecast'', JStr ''0.1%''), (''previous'', JStr ''0.0%'')]])]])])]
   = Inr [\<lparr>timestamp = Some \<lparr>year = 2024, month = 7, mday = 1, hour = 8, minute = 30, second = 0\<rparr>, currency = ''USD'', impact = ''High Impact Expected'', event = '''', actual = '''', forecast = ''0.1%'', previous = ''0.0%'', day = ''Mon Jul 1'', event_id = ''eb2740faa8d912bc99e64e3f1c49c2d2''\<rparr>]
   \<and> parse_calendar_html_json \<lparr>fromtimestamp = (\<lambda>n. if n = 1719822600 then Some \<lparr>year = 2024, month = 7, mday = 1, hour = 8, minute = 30, second = 0\<rparr> else None), soup_text = (\<lambda>v. case v of JStr s \<Rightarrow> Inr s | _ \<Rightarrow> Inl TypeError)\<rparr>
     [(''1'', JObj [(''days'', JArr [JObj [(''date'', JStr ''Mon Jul 1''), (''events'', JArr [JObj [(''dateline'', JNum 1719822600), (''name'', JStr ''''), (''currency'', JStr ''USD''), (''impactTitle'', JStr ''High Impact Expected''), (''actual'', JStr ''0.2%''), (''forecast'', JStr ''0.1%''), (''previous'', JStr ''0.0%'')]])]])])]
   = Inr [\<lparr>timestamp = Some \<lparr>year = 2024, month = 7, mday = 1, hour = 8, minute = 30, second = 0\<rparr>, currency = ''USD'', impact = ''High Impact Expected'', event = '''', actual = ''0.2%'', forecast = ''0.1%'', previous = ''0.0%'', day = ''Mon Jul 1'', event_id = ''6a79f5d567b12f43291f250bda827cb2''\<rparr>]"
  by code_simp

section \<open>Properties of \<open>scrape_week\<close>\<close>

lemma digit_chars:
  "digit_char 0 = CHR ''0''" "digit_char 1 = CHR ''1''" "digit_char 2 = CHR ''2''"
  "digit_char 3 = CHR ''3''" "digit_char 4 = CHR ''4''" "digit_char 5 = CHR ''5''"
  "digit_char 6 = CHR ''6''" "digit_char 7 = CHR ''7''" "digit_char 8 = CHR ''8''"
  "digit_char 9 = CHR ''9''" "digit_char (Suc 0) = CHR ''1''"
  by code_simp+

lemma ord2ymd_20240701: "ord2ymd 739068 = (2024, 7, 1)"
  by (simp add: ord2ymd_def Let_def)

lemma ord2ymd_20240708: "ord2ymd 739075 = (2024, 7, 8)"
  by (simp add: ord2ymd_def Let_def)

lemma strftime_Ymd_20240701: "strftime_Ymd 739068 = ''20240701''"
  by (simp add: strftime_Ymd_def ord2ymd_20240701 zero_pad_def digit_chars)

lemma strftime_Ymd_20240708: "strftime_Ymd 739075 = ''20240708''"
  by (simp add: strftime_Ymd_def ord2ymd_20240708 zero_pad_def digit_chars)

lemma week_csv_20240701: "week_csv 739068 = ''week_20240701.csv''"
  by (simp add: week_csv_def strftime_Ymd_20240701)

lemma week_csv_20240708: "week_csv 739075 = ''week_20240708.csv''"
  by (simp add: week_csv_def strftime_Ymd_20240708)

lemma build_week_url_20240701:
  "build_week_url 739068 = ''https://www.forexfactory.com/calendar?week=Jul01.2024''"
  by (simp add: build_week_url_def strftime_bdY_def ord2ymd_20240701 zero_pad_def digit_chars)

lemma build_week_url_20240708:
  "build_week_url 739075 = ''https://www.forexfactory.com/calendar?week=Jul08.2024''"
  by (simp add: build_week_url_def strftime_bdY_def ord2ymd_20240708 zero_pad_def digit_chars)

lemma load_page_frame:
  "load_page E url attempt w = (r, w')
     \<Longrightarrow> calendar_dir w' = calendar_dir w \<and> drivers w' = drivers w
         \<and> debug_files w' = debug_files w"
proof (induction E url attempt w rule: load_page.induct)
  case (1 E url attempt w)
  show ?case
  proof (cases "attempt \<ge> 4")
    case True
    with "1.prems" show ?thesis by simp
  next
    case False
    show ?thesis
    proof (cases "page_load E (page_loads w) url")
      case None
      with False "1.prems" have
        "load_page E url (attempt + 1)
           (add_log (RetryGet attempt) (w\<lparr>page_loads := page_loads w + 1\<rparr>)) = (r, w')"
        by simp
      from "1.IH" [OF False None this] show ?thesis by simp
    next
      case (Some html)
      with False "1.prems" show ?thesis by auto
    qed
  qed
qed

lemma parse_calendar_html_malformed:
  "state_dict html = None \<Longrightarrow> fst (parse_calendar_html L html dbg) = Inl ValueError"
  by (simp add: parse_calendar_html_def Let_def split: option.splits)

text \<open>
  C1 (as amended).  When the page \<open>scrape_week\<close> has loaded holds an embedded state that
  cannot be evaluated (\<open>state_dict\<close> is None), then, whatever its DOM rows are:
  \<open>parse_calendar_html\<close> raises ValueError, and \<open>scrape_week\<close>, which calls no other
  parser, raises RuntimeError, having written the page to the debug file of the week
  last, and leaves the tables of \<open>DATA_DIR\<close> as they were.
\<close>

theorem scrape_week_raises_on_malformed_state:
  assumes "load_page E (build_week_url week_date) 1 (add_log (ScrapingWeek week_date) w)
             = (Some html, w1)"
    and "state_dict html = None"
  shows "fst (parse_calendar_html (lib E) html dbg) = Inl ValueError
       \<and> (\<exists>w'. scrape_week E week_date w = (Some RuntimeError, w')
               \<and> calendar_dir w' = calendar_dir w
               \<and> last (debug_files w') = ''debug/ff_calendar_'' @ strftime_Ymd week_date @ ''.html'')"
proof
  from assms(2) show "fst (parse_calendar_html (lib E) html dbg) = Inl ValueError"
    by (rule parse_calendar_html_malformed)
next
  from load_page_frame [OF assms(1)] have c: "calendar_dir w1 = calendar_dir w" by simp
  let ?w2 = "w1\<lparr>debug_files := debug_files w1
                 @ [''debug/raw_html_'' @ strftime_Ymd week_date @ ''.html'']\<rparr>"
  obtain ex dbg' where p: "parse_calendar_html (lib E) html (debug_files ?w2) = (Inl ex, dbg')"
    using parse_calendar_html_malformed [OF assms(2), of "lib E" "debug_files ?w2"]
    by (cases "parse_calendar_html (lib E) html (debug_files ?w2)") auto
  show "\<exists>w'. scrape_week E week_date w = (Some RuntimeError, w') \<and> calendar_dir w' = calendar_dir w
          \<and> last (debug_files w') = ''debug/ff_calendar_'' @ strftime_Ymd week_date @ ''.html''"
    using assms(1) p c
    by (simp add: scrape_week_def Let_def del: load_page.simps)
qed



theorem scrape_week_raises_on_malformed_state_witness:
  "\<exists>w'. scrape_week
     \<lparr>page_load = (\<lambda>k url. Some
       \<lparr>state_blob = Some ''{days: [{date: '', state_dict = None,
        calendar_rows =
          [\<lparr>time_cell = Some ''8:30am'', date_cell = Some ''Mon Jul 1'',
           currency_cell = Some ''USD'', impact_cell = Some (Some ''High Impact Expected''),
           event_title = Some ''CPI m/m'', actual_cell = Some ''0.1%'',
           forecast_cell = Some ''0.1%'', previous_cell = Some ''0.0%''\<rparr>]\<rparr>),
      driver_starts = (\<lambda>k. True),
      lib = \<lparr>fromtimestamp = (\<lambda>n. None), soup_text = (\<lambda>v. Inl TypeError)\<rparr>\<rparr>
     739068 \<lparr>calendar_dir = [], debug_files = [], log = [], page_loads = 0, drivers = 1\<rparr> = (Some RuntimeError, w')
     \<and> calendar_dir w' = []
     \<and> last (debug_files w') = ''debug/ff_calendar_20240701.html''"
proof -
  let ?pg = "\<lparr>state_blob = Some ''{days: [{date: '', state_dict = None,
        calendar_rows =
          [\<lparr>time_cell = Some ''8:30am'', date_cell = Some ''Mon Jul 1'',
           currency_cell = Some ''USD'', impact_cell = Some (Some ''High Impact Expected''),
           event_title = Some ''CPI m/m'', actual_cell = Some ''0.1%'',
           forecast_cell = Some ''0.1%'', previous_cell = Some ''0.0%''\<rparr>]\<rparr>"
  let ?E = "\<lparr>page_load = (\<lambda>k url. Some
       \<lparr>state_blob = Some ''{days: [{date: '', state_dict = None,
        calendar_rows =
          [\<lparr>time_cell = Some ''8:30am'', date_cell = Some ''Mon Jul 1'',
           currency_cell = Some ''USD'', impact_cell = Some (Some ''High Impact Expected''),
           event_title = Some ''CPI m/m'', actual_cell = Some ''0.1%'',
           forecast_cell = Some ''0.1%'', previous_cell = Some ''0.0%''\<rparr>]\<rparr>),
      driver_starts = (\<lambda>k. True),
      lib = \<lparr>fromtimestamp = (\<lambda>n. None), soup_text = (\<lambda>v. Inl TypeError)\<rparr>\<rparr>"
  let ?w = "\<lparr>calendar_dir = [], debug_files = [], log = [], page_loads = 0, drivers = 1\<rparr>"
  have l: "load_page ?E (build_week_url 739068) 1 (add_log (ScrapingWeek 739068) ?w)
           = (Some ?pg, (add_log (ScrapingWeek 739068) ?w)\<lparr>page_loads := 1\<rparr>)"
    by (simp add: add_log_def)
  have m: "state_dict ?pg = None" by simp
  show ?thesis
    using scrape_week_raises_on_malformed_state [OF l m, of "[]"]
    by (simp add: strftime_Ymd_20240701)
qed

text \<open>
  Against C1 as the specification states it: the embedded state of this page is malformed
  and its one DOM row is well formed (\<open>parse_calendar_dom\<close> reads an event from it), yet
  \<open>scrape_week\<close> raises and saves no table.
\<close>

lemma dom_example:
  "parse_calendar_dom
     [\<lparr>time_cell = Some ''8:30am'', date_cell = Some ''Mon Jul 1'',
           currency_cell = Some ''USD'', impact_cell = Some (Some ''High Impact Expected''),
           event_title = Some ''CPI m/m'', actual_cell = Some ''0.1%'',
           forecast_cell = Some ''0.1%'', previous_cell = Some ''0.0%''\<rparr>]
     (Some \<lparr>year = 2024, month = 7, mday = 1, hour = 0, minute = 0, second = 0\<rparr>)
   = [\<lparr>timestamp = Some \<lparr>year = 2024, month = 7, mday = 1, hour = 8, minute = 30, second = 0\<rparr>,
         currency = ''USD'', impact = ''High Impact Expected'', event = ''CPI m/m'',
         actual = ''0.1%'', forecast = ''0.1%'', previous = ''0.0%'', day = ''Mon Jul 1'',
         event_id = ''f158834009e4ef8d73ee058e9d9b0896''\<rparr>]"
  by code_simp

theorem scrape_week_no_dom_fallthrough_counterexample:
  "scrape_week
     \<lparr>page_load = (\<lambda>k url. Some
       \<lparr>state_blob = Some ''{days: [{date: '', state_dict = None,
        calendar_rows =
          [\<lparr>time_cell = Some ''8:30am'', date_cell = Some ''Mon Jul 1'',
           currency_cell = Some ''USD'', impact_cell = Some (Some ''High Impact Expected''),
           event_title = Some ''CPI m/m'', actual_cell = Some ''0.1%'',
           forecast_cell = Some ''0.1%'', previous_cell = Some ''0.0%''\<rparr>]\<rparr>),
      driver_starts = (\<lambda>k. True),
      lib = \<lparr>fromtimestamp = (\<lambda>n. None), soup_text = (\<lambda>v. Inl TypeError)\<rparr>\<rparr>
     739068 \<lparr>calendar_dir = [], debug_files = [], log = [], page_loads = 0, drivers = 1\<rparr>
   = (Some RuntimeError,
      \<lparr>calendar_dir = [],
         debug_files = [''debug/raw_html_20240701.html'', ''debug/raw_calendar_json.js'',
                        ''debug/ff_calendar_20240701.html''],
         log = [ScrapingWeek 739068], page_loads = 1, drivers = 1\<rparr>)
   \<and> parse_calendar_dom
       (calendar_rows
          \<lparr>state_blob = Some ''{days: [{date: '', state_dict = None,
        calendar_rows =
          [\<lparr>time_cell = Some ''8:30am'', date_cell = Some ''Mon Jul 1'',
           currency_cell = Some ''USD'', impact_cell = Some (Some ''High Impact Expected''),
           event_title = Some ''CPI m/m'', actual_cell = Some ''0.1%'',
           forecast_cell = Some ''0.1%'', previous_cell = Some ''0.0%''\<rparr>]\<rparr>)
       (Some \<lparr>year = 2024, month = 7, mday = 1, hour = 0, minute = 0, second = 0\<rparr>)
     = [\<lparr>timestamp = Some \<lparr>year = 2024, month = 7, mday = 1, hour = 8, minute = 30, second = 0\<rparr>,
         currency = ''USD'', impact = ''High Impact Expected'', event = ''CPI m/m'',
         actual = ''0.1%'', forecast = ''0.1%'', previous = ''0.0%'', day = ''Mon Jul 1'',
         event_id = ''f158834009e4ef8d73ee058e9d9b0896''\<rparr>]"
proof (rule conjI)
  show "scrape_week
     \<lparr>page_load = (\<lambda>k url. Some
       \<lparr>state_blob = Some ''{days: [{date: '', state_dict = None,
        calendar_rows =
          [\<lparr>time_cell = Some ''8:30am'', date_cell = Some ''Mon Jul 1'',
           currency_cell = Some ''USD'', impact_cell = Some (Some ''High Impact Expected''),
           event_title = Some ''CPI m/m'', actual_cell = Some ''0.1%'',
           forecast_cell = Some ''0.1%'', previous_cell = Some ''0.0%''\<rparr>]\<rparr>),
      driver_starts = (\<lambda>k. True),
      lib = \<lparr>fromtimestamp = (\<lambda>n. None), soup_text = (\<lambda>v. Inl TypeError)\<rparr>\<rparr>
     739068 \<lparr>calendar_dir = [], debug_files = [], log = [], page_loads = 0, drivers = 1\<rparr>
   = (Some RuntimeError,
      \<lparr>calendar_dir = [],
         debug_files = [''debug/raw_html_20240701.html'', ''debug/raw_calendar_json.js'',
                        ''debug/ff_calendar_20240701.html''],
         log = [ScrapingWeek 739068], page_loads = 1, drivers = 1\<rparr>)"
    by (simp add: scrape_week_def parse_calendar_html_def add_log_def Let_def
        strftime_Ymd_20240701)
next
  show "parse_calendar_dom
       (calendar_rows
          \<lparr>state_blob = Some ''{days: [{date: '', state_dict = None,
        calendar_rows =
          [\<lparr>time_cell = Some ''8:30am'', date_cell = Some ''Mon Jul 1'',
           currency_cell = Some ''USD'', impact_cell = Some (Some ''High Impact Expected''),
           event_title = Some ''CPI m/m'', actual_cell = Some ''0.1%'',
           forecast_cell = Some ''0.1%'', previous_cell = Some ''0.0%''\<rparr>]\<rparr>)
       (Some \<lparr>year = 2024, month = 7, mday = 1, hour = 0, minute = 0, second = 0\<rparr>)
     = [\<lparr>timestamp = Some \<lparr>year = 2024, month = 7, mday = 1, hour = 8, minute = 30, second = 0\<rparr>,
         currency = ''USD'', impact = ''High Impact Expected'', event = ''CPI m/m'',
         actual = ''0.1%'', forecast = ''0.1%'', previous = ''0.0%'', day = ''Mon Jul 1'',
         event_id = ''f158834009e4ef8d73ee058e9d9b0896''\<rparr>]"
    by (simp only: page.select_convs dom_example)
qed

end
